theory Spec2Isabelle
  imports Complex_Main "HOL-Library.Char_ord" "HOL-Library.List_Lexorder" "HOL-Library.AList"
begin

section \<open>Translation cache and prompts\<close>

text \<open>
  \<^verbatim>\<open>translator.py\<close> uses the classes \<^verbatim>\<open>Translations\<close> (module \<^verbatim>\<open>translations\<close>) and
  \<^verbatim>\<open>SourceFile\<close> with its prompts (module \<^verbatim>\<open>source_file\<close>) through a handful of
  container methods. A dictionary is a map; a dictionary of dictionaries is a map into maps.
  Values are copied, not shared: a prompt owns its own language mapping.
\<close>

type_synonym Translations = "string \<rightharpoonup> (string \<rightharpoonup> string)"

text \<open>Modelled from the spec: \<^verbatim>\<open>Translations.__contains__\<close> (module \<^verbatim>\<open>translations\<close>),
  the cache operation \<^verbatim>\<open>contains(text) -> bool\<close>.\<close>

definition contains :: "Translations \<Rightarrow> string \<Rightarrow> bool" where
  "contains tr t = (tr t \<noteq> None)"

text \<open>Modelled from the spec: \<^verbatim>\<open>Translations.get_translations\<close>, the cache operation
  \<^verbatim>\<open>get(text) -> mapping language -> translation\<close> (empty mapping if absent).\<close>

definition get_translations :: "Translations \<Rightarrow> string \<Rightarrow> (string \<rightharpoonup> string)" where
  "get_translations tr t = (case tr t of None \<Rightarrow> Map.empty | Some m \<Rightarrow> m)"

text \<open>Modelled from the spec: \<^verbatim>\<open>Translations.add_translation\<close>, the cache operation
  \<^verbatim>\<open>add(language, text, translation)\<close>: insert or overwrite a single cell.\<close>

definition add_translation :: "Translations \<Rightarrow> string \<Rightarrow> string \<Rightarrow> string \<Rightarrow> Translations" where
  "add_translation tr language t translation =
     tr(t \<mapsto> (get_translations tr t)(language \<mapsto> translation))"

text \<open>One cell of the cache: the translation stored for a text in a language, if any.\<close>

definition cell :: "Translations \<Rightarrow> string \<Rightarrow> string \<Rightarrow> string option" where
  "cell tr t language = (case tr t of None \<Rightarrow> None | Some m \<Rightarrow> m language)"

text \<open>Modelled from the spec: the class \<^verbatim>\<open>Prompt\<close> (module \<^verbatim>\<open>source_file\<close>): a prompt is
  identified by its literal source text and owns a mapping from language code to translated
  text, which may hold the empty string for a language.\<close>

record prompt =
  get_text :: string
  prompt_translations :: "string \<rightharpoonup> string"

text \<open>Modelled from the spec: \<^verbatim>\<open>Prompt.set_translations\<close>, which copies a language mapping
  onto the prompt.\<close>

definition set_translations :: "prompt \<Rightarrow> (string \<rightharpoonup> string) \<Rightarrow> prompt" where
  "set_translations p m = p\<lparr>prompt_translations := m\<rparr>"

text \<open>Modelled from the spec: \<^verbatim>\<open>Prompt.set_translation\<close>, which sets the entry of one
  language.\<close>

definition set_translation :: "prompt \<Rightarrow> string \<Rightarrow> string \<Rightarrow> prompt" where
  "set_translation p language translation =
     p\<lparr>prompt_translations := (prompt_translations p)(language \<mapsto> translation)\<rparr>"

text \<open>Modelled from the spec: \<^verbatim>\<open>Prompt.has_translation\<close>: the prompt has an entry for the
  language (an empty string is an entry).\<close>

definition has_translation :: "prompt \<Rightarrow> string \<Rightarrow> bool" where
  "has_translation p language = (prompt_translations p language \<noteq> None)"

text \<open>Modelled from the spec: \<^verbatim>\<open>Prompt.get_translation\<close>, the resolved text of a prompt in a
  language; a language without entry resolves to the empty string.\<close>

definition get_translation :: "prompt \<Rightarrow> string \<Rightarrow> string" where
  "get_translation p language =
     (case prompt_translations p language of None \<Rightarrow> [] | Some t \<Rightarrow> t)"

text \<open>Modelled from the spec: the class \<^verbatim>\<open>SourceFile\<close>: the prompts of one source file, in the
  order of \<^verbatim>\<open>get_prompts().values()\<close>.\<close>

type_synonym SourceFile = "prompt list"

text \<open>Modelled from the spec: \<^verbatim>\<open>SourceFile.get_prompts_and_translation\<close>: the dictionary from
  text to translation of the prompts of the file qualifying for a language, where a prompt
  whose resolved text is empty qualifies only when empty translations are included.\<close>

definition get_prompts_and_translation ::
  "SourceFile \<Rightarrow> string \<Rightarrow> bool \<Rightarrow> (string \<times> string) list" where
  "get_prompts_and_translation f language include_empty =
     map (\<lambda>p. (get_text p, get_translation p language))
       (filter (\<lambda>p. get_translation p language \<noteq> [] \<or> include_empty) f)"

section \<open>The remote provider and the state of a run\<close>

text \<open>
  The provider is outside the program. Its answer to a call may depend on how many calls
  it has served, on the text and on the two languages; the answer is a result of the
  expected shape (\<^verbatim>\<open>deepl.TextResult\<close>) or of any other shape, and the call takes some time.
  The tables \<^verbatim>\<open>LANGUAGES_TO_DEEPL\<close> and the glossary handles are passed to the provider
  unchanged and are part of what the provider function stands for.
\<close>

datatype provider_result = TextResult string | OtherResult

record reply =
  reply_result :: provider_result
  reply_latency :: real

type_synonym provider = "nat \<Rightarrow> string \<Rightarrow> string \<Rightarrow> string \<Rightarrow> reply"

datatype deepl_handle = Translator string

text \<open>One entry of the log of remote translation calls: when the call started, its text and
  target language, and what \<^verbatim>\<open>transalte_with_deepl\<close> returned for it.\<close>

record remote_call =
  call_at :: real
  call_text :: string
  call_lang :: string
  call_returned :: string

datatype descr = DescrStr string | DescrDict "(string \<times> string) list"

record info_json =
  info_id :: string
  info_language :: "string list"
  info_description :: "descr option"

text \<open>The fields of \<^verbatim>\<open>PluginTranslator\<close>, followed by the two parts of the environment the
  run acts on: the monotonic clock and the log of remote translation calls.\<close>

record PluginTranslator =
  files :: "(string \<times> SourceFile) list"
  existing_translations :: Translations
  source_language :: string
  target_languages :: "string list"
  include_empty_translation :: bool
  use_core_translations :: bool
  generate_source_language_translations :: bool
  deepl_translator_field :: "deepl_handle option"
  deepl_api_key :: "string option"
  api_call_counter :: nat
  info_json_content :: "info_json option"
  clock :: real
  calls :: "remote_call list"

text \<open>The property \<^verbatim>\<open>deepl_translator\<close>: the handle is created on first use when an API key
  is present. The state after the access is returned; the value of the property is its
  field \<open>deepl_translator_field\<close>. Creating the handle also brings the glossaries of the
  provider up to date, which translates nothing and is left to the provider.\<close>

definition deepl_translator :: "PluginTranslator \<Rightarrow> PluginTranslator" where
  "deepl_translator s =
     (if deepl_translator_field s \<noteq> None then s
      else (case deepl_api_key s of
              Some k \<Rightarrow> s\<lparr>deepl_translator_field := Some (Translator k)\<rparr>
            | None \<Rightarrow> s))"

definition transalte_with_deepl ::
  "provider \<Rightarrow> PluginTranslator \<Rightarrow> string \<Rightarrow> string \<Rightarrow> string \<times> PluginTranslator" where
  "transalte_with_deepl prov s t target_language =
     (if deepl_translator_field s = None then ([], s)
      else
        let r = prov (length (calls s)) t (source_language s) target_language;
            tr = (case reply_result r of TextResult x \<Rightarrow> x | OtherResult \<Rightarrow> [])
        in (tr, s\<lparr>api_call_counter := api_call_counter s + 1,
                   clock := clock s + reply_latency r,
                   calls := calls s @ [\<lparr>call_at = clock s, call_text = t,
                                         call_lang = target_language, call_returned = tr\<rparr>]\<rparr>))"

section \<open>Translation resolution\<close>

text \<open>The innermost loop of \<^verbatim>\<open>do_translate\<close>, over the target languages, for one prompt.\<close>

fun do_translate_languages ::
  "provider \<Rightarrow> string list \<Rightarrow> prompt \<Rightarrow> PluginTranslator \<Rightarrow> prompt \<times> PluginTranslator" where
  "do_translate_languages prov [] p s = (p, s)"
| "do_translate_languages prov (target_language # ls) p s =
     (if target_language = source_language s then do_translate_languages prov ls p s
      else if \<not> has_translation p target_language then
        (case transalte_with_deepl prov s (get_text p) target_language of
           (tr, s1) \<Rightarrow>
             do_translate_languages prov ls (set_translation p target_language tr)
               (s1\<lparr>existing_translations :=
                     add_translation (existing_translations s1) target_language (get_text p) tr\<rparr>))
      else do_translate_languages prov ls p s)"

text \<open>The body of the loop over prompts.\<close>

definition do_translate_prompt ::
  "provider \<Rightarrow> prompt \<Rightarrow> PluginTranslator \<Rightarrow> prompt \<times> PluginTranslator" where
  "do_translate_prompt prov p s =
     (let p1 = (if contains (existing_translations s) (get_text p)
                then set_translations p (get_translations (existing_translations s) (get_text p))
                else p);
          p2 = set_translation p1 (source_language s) (get_text p1);
          s1 = deepl_translator s
      in if deepl_translator_field s1 \<noteq> None
         then do_translate_languages prov (target_languages s1) p2 s1
         else (p2, s1))"

fun do_translate_prompts ::
  "provider \<Rightarrow> prompt list \<Rightarrow> PluginTranslator \<Rightarrow> prompt list \<times> PluginTranslator" where
  "do_translate_prompts prov [] s = ([], s)"
| "do_translate_prompts prov (p # ps) s =
     (case do_translate_prompt prov p s of
        (p', s1) \<Rightarrow>
          (case do_translate_prompts prov ps s1 of (ps', s2) \<Rightarrow> (p' # ps', s2)))"

fun do_translate_files ::
  "provider \<Rightarrow> (string \<times> SourceFile) list \<Rightarrow> PluginTranslator \<Rightarrow>
     (string \<times> SourceFile) list \<times> PluginTranslator" where
  "do_translate_files prov [] s = ([], s)"
| "do_translate_files prov ((path, f) # fs) s =
     (case do_translate_prompts prov f s of
        (f', s1) \<Rightarrow>
          (case do_translate_files prov fs s1 of (fs', s2) \<Rightarrow> ((path, f') # fs', s2)))"

definition do_translate :: "provider \<Rightarrow> PluginTranslator \<Rightarrow> PluginTranslator" where
  "do_translate prov s =
     (case do_translate_files prov (files s) s of (fs', s1) \<Rightarrow> s1\<lparr>files := fs'\<rparr>)"


section \<open>The description of the metadata descriptor\<close>

text \<open>The loop of \<^verbatim>\<open>translate_info_json\<close> over the target languages. The source language
  is not skipped here.\<close>

fun translate_descriptions ::
  "provider \<Rightarrow> string list \<Rightarrow> string \<Rightarrow> (string \<times> string) list \<Rightarrow> PluginTranslator \<Rightarrow>
     (string \<times> string) list \<times> PluginTranslator" where
  "translate_descriptions prov [] source_desc descriptions s = (descriptions, s)"
| "translate_descriptions prov (target_language # ls) source_desc descriptions s =
     (if map_of descriptions target_language \<noteq> None \<and>
         map_of descriptions target_language \<noteq> Some []
      then translate_descriptions prov ls source_desc descriptions s
      else (case transalte_with_deepl prov s source_desc target_language of
              (tr, s1) \<Rightarrow>
                translate_descriptions prov ls source_desc
                  (AList.update target_language tr descriptions) s1))"

definition translate_info_json :: "provider \<Rightarrow> PluginTranslator \<Rightarrow> PluginTranslator" where
  "translate_info_json prov s =
     (let s1 = deepl_translator s in
      if deepl_translator_field s1 = None then s1
      else (case info_json_content s1 of
              None \<Rightarrow> s1
            | Some content \<Rightarrow>
                (case info_description content of
                   None \<Rightarrow> s1
                 | Some d \<Rightarrow>
                     let descriptions =
                           (case d of DescrDict m \<Rightarrow> m
                                    | DescrStr x \<Rightarrow> [(source_language s1, x)])
                     in (case map_of descriptions (source_language s1) of
                           None \<Rightarrow> s1
                         | Some source_desc \<Rightarrow>
                             (case translate_descriptions prov (target_languages s1)
                                     source_desc descriptions s1 of
                                (descriptions', s2) \<Rightarrow>
                                  s2\<lparr>info_json_content :=
                                       Some (content\<lparr>info_description :=
                                                       Some (DescrDict descriptions')\<rparr>)\<rparr>)))))"

section \<open>Writing the output\<close>

text \<open>The document assembled for one target language: the files with at least one
  qualifying prompt, each with its prompts.\<close>

definition language_result ::
  "PluginTranslator \<Rightarrow> string \<Rightarrow> (string \<times> (string \<times> string) list) list" where
  "language_result s target_language =
     filter (\<lambda>entry. length (snd entry) > 0)
       (map (\<lambda>pf. (fst pf, get_prompts_and_translation (snd pf) target_language
                               (include_empty_translation s)))
            (files s))"

text \<open>The loop of \<^verbatim>\<open>write_plugin_translations\<close>: the list of the files written, each with
  the language naming it and its document.\<close>

fun write_languages ::
  "PluginTranslator \<Rightarrow> string list \<Rightarrow> (string \<times> (string \<times> (string \<times> string) list) list) list" where
  "write_languages s [] = []"
| "write_languages s (target_language # ls) =
     (if target_language = source_language s \<and> \<not> generate_source_language_translations s
      then write_languages s ls
      else if length (language_result s target_language) > 0
      then (target_language, language_result s target_language) # write_languages s ls
      else write_languages s ls)"

definition write_plugin_translations ::
  "PluginTranslator \<Rightarrow> (string \<times> (string \<times> (string \<times> string) list) list) list" where
  "write_plugin_translations s = write_languages s (target_languages s)"

text \<open>\<^verbatim>\<open>__write_info_json\<close>: the new state and the content written to the file, if any.
  Python's \<^verbatim>\<open>sorted(set(xs))\<close> is the sorted list of the distinct elements of \<open>xs\<close>;
  strings compare by code point, a proper prefix first.\<close>

definition write_info_json :: "PluginTranslator \<Rightarrow> PluginTranslator \<times> info_json option" where
  "write_info_json s =
     (case info_json_content s of
        None \<Rightarrow> (s, None)
      | Some content \<Rightarrow>
          let content' = content\<lparr>info_language :=
                            sort (remdups ([source_language s] @ target_languages s))\<rparr>
          in (s\<lparr>info_json_content := Some content'\<rparr>, Some content'))"


section \<open>Loading, and the run\<close>

datatype error =
  ValueError string | RuntimeError string | TypeError | UnicodeDecodeError

text \<open>What \<^verbatim>\<open>_get_translations_from_json_files\<close> finds for a language in a directory: no
  file; a file that is not UTF-8 text, on which \<^verbatim>\<open>read_text\<close> raises
  \<^verbatim>\<open>UnicodeDecodeError\<close>; a file that is not JSON, on which \<^verbatim>\<open>json.loads\<close> raises
  \<^verbatim>\<open>json.JSONDecodeError\<close>; a JSON value of another shape than the expected one, on which
  the two loops raise \<^verbatim>\<open>TypeError\<close> (a list in the place of a dictionary, say); or a document
  from group keys to texts to translations. Only \<^verbatim>\<open>json.JSONDecodeError\<close> is caught.\<close>

datatype translation_file =
  Missing | Undecodable | Malformed | Misshapen
| Document "(string \<times> (string \<times> string) list) list"

text \<open>The file system as the run reads it: the translation files of the plugin, those of
  the core (\<open>None\<close> when the core root does not exist), and the source files with the
  prompts found in them, which \<^verbatim>\<open>SourceFile.search_prompts\<close> (module \<^verbatim>\<open>source_file\<close>)
  extracts.\<close>

record disk =
  plugin_translation_files :: "string \<Rightarrow> translation_file"
  core_translation_files :: "(string \<Rightarrow> translation_file) option"
  discovered :: "(string \<times> SourceFile) list"

fun add_texts :: "string \<Rightarrow> (string \<times> string) list \<Rightarrow> Translations \<Rightarrow> Translations" where
  "add_texts language [] tr = tr"
| "add_texts language ((t, translation) # rest) tr =
     add_texts language rest (add_translation tr language t translation)"

fun add_paths ::
  "string \<Rightarrow> (string \<times> (string \<times> string) list) list \<Rightarrow> Translations \<Rightarrow> Translations" where
  "add_paths language [] tr = tr"
| "add_paths language ((path, texts) # rest) tr =
     add_paths language rest (add_texts language texts tr)"

fun get_translations_from_json_files ::
  "(string \<Rightarrow> translation_file) \<Rightarrow> string list \<Rightarrow> Translations \<Rightarrow> error + Translations" where
  "get_translations_from_json_files dir [] tr = Inr tr"
| "get_translations_from_json_files dir (language # ls) tr =
     (case dir language of
        Missing \<Rightarrow> get_translations_from_json_files dir ls tr
      | Undecodable \<Rightarrow> Inl UnicodeDecodeError
      | Malformed \<Rightarrow> get_translations_from_json_files dir ls tr
      | Misshapen \<Rightarrow> Inl TypeError
      | Document data \<Rightarrow> get_translations_from_json_files dir ls (add_paths language data tr))"

definition get_plugin_translations :: "disk \<Rightarrow> PluginTranslator \<Rightarrow> error + PluginTranslator" where
  "get_plugin_translations d s =
     (case get_translations_from_json_files (plugin_translation_files d) (target_languages s)
             (existing_translations s) of
        Inl e \<Rightarrow> Inl e
      | Inr tr \<Rightarrow> Inr (s\<lparr>existing_translations := tr\<rparr>))"

definition get_core_translations :: "disk \<Rightarrow> PluginTranslator \<Rightarrow> error + PluginTranslator" where
  "get_core_translations d s =
     (case core_translation_files d of
        None \<Rightarrow> Inl (RuntimeError ''Path does not exists'')
      | Some dir \<Rightarrow>
          (case get_translations_from_json_files dir (target_languages s)
                  (existing_translations s) of
             Inl e \<Rightarrow> Inl e
           | Inr tr \<Rightarrow> Inr (s\<lparr>existing_translations := tr\<rparr>)))"

text \<open>\<^verbatim>\<open>find_prompts_in_all_files\<close> stores each source file found under its path, as a
  dictionary assignment does.\<close>

fun store_files ::
  "(string \<times> SourceFile) list \<Rightarrow> (string \<times> SourceFile) list \<Rightarrow> (string \<times> SourceFile) list" where
  "store_files [] fs = fs"
| "store_files ((path, f) # rest) fs = store_files rest (AList.update path f fs)"

definition find_prompts_in_all_files :: "disk \<Rightarrow> PluginTranslator \<Rightarrow> PluginTranslator" where
  "find_prompts_in_all_files d s = s\<lparr>files := store_files (discovered d) (files s)\<rparr>"

text \<open>\<^verbatim>\<open>start\<close>: the run. It returns the final state, the translation files written and the
  metadata descriptor written, or the error raised.\<close>

definition start ::
  "provider \<Rightarrow> disk \<Rightarrow> PluginTranslator \<Rightarrow>
     error + (PluginTranslator \<times> (string \<times> (string \<times> (string \<times> string) list) list) list \<times>
              info_json option)" where
  "start prov d s =
     (case get_plugin_translations d s of
        Inl e \<Rightarrow> Inl e
      | Inr s1 \<Rightarrow>
     (case (if use_core_translations s1 then get_core_translations d s1 else Inr s1) of
        Inl e \<Rightarrow> Inl e
      | Inr s2 \<Rightarrow>
          let s3 = find_prompts_in_all_files d s2;
              s4 = do_translate prov s3;
              s5 = translate_info_json prov s4;
              written = write_plugin_translations s5
          in (case write_info_json s5 of (s6, info) \<Rightarrow> Inr (s6, written, info))))"


section \<open>Configuration inputs and construction\<close>

text \<open>The module \<^verbatim>\<open>consts\<close> is a table of constants; the ones \<^verbatim>\<open>__get_inputs\<close> uses are
  taken as a parameter.\<close>

record constants =
  ALL_LANGUAGES :: "string list"
  FR_FR :: string
  INPUT_SOURCE_LANGUAGE :: string
  INPUT_TARGET_LANGUAGES :: string
  INPUT_DEEPL_API_KEY :: string
  INPUT_INCLUDE_EMPTY_TRANSLATION :: string
  INPUT_USE_CORE_TRANSLATIONS :: string
  INPUT_GENERATE_SOURCE_LANGUAGE_TRANSLATIONS :: string
  INPUT_DEBUG :: string

text \<open>A string is the list of its code points, all below 256. \<^verbatim>\<open>str.strip()\<close> removes the
  leading and trailing characters for which \<^verbatim>\<open>str.isspace\<close> holds.\<close>

definition isspace :: "char \<Rightarrow> bool" where
  "isspace c = ((of_char c :: nat) \<in> {9, 10, 11, 12, 13, 28, 29, 30, 31, 32, 133, 160})"

definition strip :: "string \<Rightarrow> string" where
  "strip v = rev (dropWhile isspace (rev (dropWhile isspace v)))"

text \<open>\<^verbatim>\<open>val.split(',')\<close>: the pieces between the commas, empty pieces included.\<close>

fun split_comma :: "string \<Rightarrow> string list" where
  "split_comma [] = [[]]"
| "split_comma (c # cs) =
     (if c = CHR '','' then [] # split_comma cs
      else (case split_comma cs of
              [] \<Rightarrow> [[c]]
            | piece # pieces \<Rightarrow> (c # piece) # pieces))"

definition get_input :: "(string \<rightharpoonup> string) \<Rightarrow> string \<Rightarrow> string option" where
  "get_input environ name =
     (let val = (case environ name of Some v \<Rightarrow> strip v | None \<Rightarrow> [])
      in if val \<noteq> [] then Some val else None)"

definition get_boolean_input :: "(string \<rightharpoonup> string) \<Rightarrow> string \<Rightarrow> error + bool" where
  "get_boolean_input environ name =
     (let val = get_input environ name;
          trueValue = [''true'', ''True'', ''TRUE''];
          falseValue = [''false'', ''False'', ''FALSE'']
      in if val \<in> set (map Some trueValue) then Inr True
         else if val \<in> set (map Some falseValue) then Inr False
         else Inl (ValueError name))"

definition get_list_input ::
  "(string \<rightharpoonup> string) \<Rightarrow> string \<Rightarrow> string list \<Rightarrow> error + string list" where
  "get_list_input environ name allowed_values =
     (case get_input environ name of
        None \<Rightarrow> Inl (ValueError name)
      | Some val \<Rightarrow>
          let pieces = map strip (split_comma val)
          in if \<exists>x \<in> set pieces. x \<notin> set allowed_values then Inl (ValueError name)
             else Inr pieces)"

definition get_input_in_list ::
  "(string \<rightharpoonup> string) \<Rightarrow> string \<Rightarrow> string list \<Rightarrow> error + string" where
  "get_input_in_list environ name allowed_values =
     (case get_input environ name of
        None \<Rightarrow> Inl (ValueError name)
      | Some val \<Rightarrow> if val \<notin> set allowed_values then Inl (ValueError name) else Inr val)"

text \<open>\<^verbatim>\<open>__get_inputs\<close>, in the order of the source; the first error ends it.\<close>

definition get_inputs ::
  "constants \<Rightarrow> (string \<rightharpoonup> string) \<Rightarrow> PluginTranslator \<Rightarrow> error + PluginTranslator" where
  "get_inputs c environ s =
     (case get_input_in_list environ (INPUT_SOURCE_LANGUAGE c) (ALL_LANGUAGES c) of
        Inl e \<Rightarrow> Inl e
      | Inr src \<Rightarrow>
     (case get_list_input environ (INPUT_TARGET_LANGUAGES c) (ALL_LANGUAGES c) of
        Inl e \<Rightarrow> Inl e
      | Inr tgts \<Rightarrow>
     (case get_boolean_input environ (INPUT_INCLUDE_EMPTY_TRANSLATION c) of
        Inl e \<Rightarrow> Inl e
      | Inr inc \<Rightarrow>
     (case (if src \<noteq> FR_FR c then Inr False
            else get_boolean_input environ (INPUT_USE_CORE_TRANSLATIONS c)) of
        Inl e \<Rightarrow> Inl e
      | Inr core \<Rightarrow>
     (case get_boolean_input environ (INPUT_GENERATE_SOURCE_LANGUAGE_TRANSLATIONS c) of
        Inl e \<Rightarrow> Inl e
      | Inr gen \<Rightarrow>
     (case get_boolean_input environ (INPUT_DEBUG c) of
        Inl e \<Rightarrow> Inl e
      | Inr debug \<Rightarrow>
          Inr (s\<lparr>source_language := src, target_languages := tgts,
                 deepl_api_key := get_input environ (INPUT_DEEPL_API_KEY c),
                 include_empty_translation := inc, use_core_translations := core,
                 generate_source_language_translations := gen\<rparr>)))))))"

text \<open>\<^verbatim>\<open>__read_info_json\<close>: the descriptor file is missing (\<open>None\<close>) or holds a descriptor.\<close>

definition read_info_json :: "info_json option \<Rightarrow> PluginTranslator \<Rightarrow> error + PluginTranslator" where
  "read_info_json info_file s =
     (case info_file of
        None \<Rightarrow> Inl (RuntimeError ''Missing info.json file'')
      | Some content \<Rightarrow> Inr (s\<lparr>info_json_content := Some content\<rparr>))"

text \<open>\<^verbatim>\<open>__init__\<close>: the defaults, then the inputs, then the descriptor. The clock of the
  environment starts at \<open>now\<close>.\<close>

definition init ::
  "constants \<Rightarrow> (string \<rightharpoonup> string) \<Rightarrow> info_json option \<Rightarrow> real \<Rightarrow> error + PluginTranslator" where
  "init c environ info_file now =
     (case get_inputs c environ
             \<lparr>files = [], existing_translations = Map.empty, source_language = [],
              target_languages = [], include_empty_translation = False,
              use_core_translations = True, generate_source_language_translations = False,
              deepl_translator_field = None, deepl_api_key = None, api_call_counter = 0,
              info_json_content = None, clock = now, calls = []\<rparr> of
        Inl e \<Rightarrow> Inl e
      | Inr s \<Rightarrow> read_info_json info_file s)"

section \<open>The rate limiter\<close>

text \<open>\<^verbatim>\<open>throttle.py\<close>. Times are seconds on the monotonic clock.\<close>

record Throttle =
  throttle_period :: real
  time_of_last_call :: real

definition Throttle_init :: "real \<Rightarrow> Throttle" where
  "Throttle_init seconds = \<lparr>throttle_period = seconds, time_of_last_call = 0\<rparr>"

text \<open>The wrapper of \<^verbatim>\<open>Throttle.__call__\<close> up to the call of the wrapped function: \<open>now\<close> is
  the clock when the wrapper is entered, and \<^verbatim>\<open>time.sleep\<close> returns \<open>overshoot\<close> seconds
  later than asked. The result is the new limiter and the clock when the wrapped function
  is entered.\<close>

definition wrapper :: "Throttle \<Rightarrow> real \<Rightarrow> real \<Rightarrow> Throttle \<times> real" where
  "wrapper th now overshoot =
     (let time_since_last_call = now - time_of_last_call th
      in if time_since_last_call > throttle_period th
         then (th\<lparr>time_of_last_call := now\<rparr>, now)
         else
           let wait_seconds = throttle_period th - time_since_last_call;
               woken = now + wait_seconds + overshoot
           in (th\<lparr>time_of_last_call := woken\<rparr>, woken))"

text \<open>A sequence of calls of one wrapped function, each with the clock at its entry and the
  overshoot of its sleep: the clock at each entry into the wrapped function.\<close>

fun wrapped_calls :: "Throttle \<Rightarrow> (real \<times> real) list \<Rightarrow> real list" where
  "wrapped_calls th [] = []"
| "wrapped_calls th ((now, overshoot) # rest) =
     (case wrapper th now overshoot of (th', entered) \<Rightarrow> entered # wrapped_calls th' rest)"

text \<open>Consecutive times are at least \<open>period\<close> apart.\<close>

fun paced :: "real \<Rightarrow> real list \<Rightarrow> bool" where
  "paced period (a # b # ts) = (b - a \<ge> period \<and> paced period (b # ts))"
| "paced period ts = True"

section \<open>Predicates on states\<close>

text \<open>The pair a remote translation call is made for.\<close>

definition call_key :: "remote_call \<Rightarrow> string \<times> string" where
  "call_key c = (call_text c, call_lang c)"

text \<open>The prompt has an entry wherever the cache has one for its text.\<close>

definition covers :: "prompt \<Rightarrow> PluginTranslator \<Rightarrow> bool" where
  "covers p s = (\<forall>l. cell (existing_translations s) (get_text p) l \<noteq> None \<longrightarrow>
                      prompt_translations p l \<noteq> None)"

text \<open>No pair was called for twice, and the cache holds what each call returned.\<close>

definition logged :: "PluginTranslator \<Rightarrow> bool" where
  "logged s = (distinct (map call_key (calls s)) \<and>
     (\<forall>c\<in>set (calls s).
        cell (existing_translations s) (call_text c) (call_lang c) = Some (call_returned c)))"

text \<open>The first two steps of the loop body of \<^verbatim>\<open>do_translate\<close>: the entries of the cache for the text, then the text itself for the source language.\<close>

definition resolve_from_cache :: "PluginTranslator \<Rightarrow> prompt \<Rightarrow> prompt" where
  "resolve_from_cache s p =
     set_translation
       (if contains (existing_translations s) (get_text p)
        then set_translations p (get_translations (existing_translations s) (get_text p))
        else p)
       (source_language s) (get_text p)"

text \<open>A provider handle exists or can be created.\<close>

definition provider_available :: "PluginTranslator \<Rightarrow> bool" where
  "provider_available s = (deepl_translator_field s \<noteq> None \<or> deepl_api_key s \<noteq> None)"

text \<open>Every call was made for a target language other than the source language.\<close>

definition calls_on_targets :: "PluginTranslator \<Rightarrow> bool" where
  "calls_on_targets s = (\<forall>c\<in>set (calls s). call_lang c \<in> set (target_languages s) \<and>
                   call_lang c \<noteq> source_language s)"

text \<open>Every cell of the first cache is a cell of the second.\<close>

definition cache_grows :: "PluginTranslator \<Rightarrow> PluginTranslator \<Rightarrow> bool" where
  "cache_grows s s' = (\<forall>t l r. cell (existing_translations s) t l = Some r \<longrightarrow>
                         cell (existing_translations s') t l = Some r)"

text \<open>The prompt has, for every target language other than the source language, the entry the cache has for its text.\<close>

definition resolved :: "prompt \<Rightarrow> PluginTranslator \<Rightarrow> bool" where
  "resolved p s = (\<forall>l\<in>set (target_languages s). l \<noteq> source_language s \<longrightarrow>
     (\<exists>x. prompt_translations p l = Some x \<and>
          cell (existing_translations s) (get_text p) l = Some x))"

text \<open>Outside the source language, the prompt holds what the cache holds for its text.\<close>

definition mirrors :: "prompt \<Rightarrow> PluginTranslator \<Rightarrow> bool" where
  "mirrors p s = (\<forall>l. l \<noteq> source_language s \<longrightarrow>
     prompt_translations p l = cell (existing_translations s) (get_text p) l)"

section \<open>An example run\<close>

text \<open>Two source files sharing the prompt \<open>Hello\<close>, a cache that knows \<open>Bye\<close> in one target
  language and holds a stale entry for it in the source language, and two providers: one that
  answers every call, one whose answers never have the expected shape.\<close>

definition prov_ok :: provider where
  "prov_ok n t src tgt = \<lparr>reply_result = TextResult (tgt @ '':'' @ t), reply_latency = 1 / 100\<rparr>"

definition prov_bad :: provider where
  "prov_bad n t src tgt = \<lparr>reply_result = OtherResult, reply_latency = 1 / 100\<rparr>"

definition hello :: prompt where
  "hello = \<lparr>get_text = ''Hello'', prompt_translations = Map.empty\<rparr>"

definition bye :: prompt where
  "bye = \<lparr>get_text = ''Bye'', prompt_translations = Map.empty\<rparr>"

definition example_state :: PluginTranslator where
  "example_state =
     \<lparr>files = [(''plugins/x/a.php'', [hello, bye]), (''plugins/x/b.php'', [hello])],
      existing_translations =
        [''Bye'' \<mapsto> [''en-US'' \<mapsto> ''Goodbye'', ''fr-FR'' \<mapsto> ''stale'']],
      source_language = ''fr-FR'', target_languages = [''en-US'', ''es-ES''],
      include_empty_translation = False, use_core_translations = False,
      generate_source_language_translations = False,
      deepl_translator_field = None, deepl_api_key = Some ''key'', api_call_counter = 0,
      info_json_content =
        Some \<lparr>info_id = ''x'', info_language = [''fr-FR''], info_description = None\<rparr>,
      clock = 0, calls = []\<rparr>"

text \<open>What the example run finds on disk, and the state a construction without credential
  leaves.\<close>

definition example_disk :: disk where
  "example_disk =
     \<lparr>plugin_translation_files =
        (\<lambda>l. if l = ''en-US''
             then Document [(''plugins/x/a.php'', [(''Bye'', ''Goodbye'')])]
             else if l = ''es-ES'' then Malformed else Missing),
      core_translation_files =
        Some (\<lambda>l. if l = ''en-US'' then Document [(''core'', [(''Yes'', ''Yes'')])] else Missing),
      discovered = [(''plugins/x/a.php'', [hello, bye]), (''plugins/x/b.php'', [hello])]\<rparr>"

definition fresh_state :: PluginTranslator where
  "fresh_state =
     \<lparr>files = [], existing_translations = Map.empty,
      source_language = ''fr-FR'', target_languages = [''en-US'', ''es-ES''],
      include_empty_translation = False, use_core_translations = True,
      generate_source_language_translations = False,
      deepl_translator_field = None, deepl_api_key = None, api_call_counter = 0,
      info_json_content =
        Some \<lparr>info_id = ''x'', info_language = [''fr-FR'', ''de-DE''], info_description = None\<rparr>,
      clock = 0, calls = []\<rparr>"

text \<open>The three loading phases of \<^verbatim>\<open>start\<close>, and the state they leave when none of them
  raises.\<close>

definition load :: "disk \<Rightarrow> PluginTranslator \<Rightarrow> error + PluginTranslator" where
  "load d s =
     (case get_plugin_translations d s of
        Inl e \<Rightarrow> Inl e
      | Inr s1 \<Rightarrow>
     (case (if use_core_translations s1 then get_core_translations d s1 else Inr s1) of
        Inl e \<Rightarrow> Inl e
      | Inr s2 \<Rightarrow> Inr (find_prompts_in_all_files d s2)))"

definition loaded :: "disk \<Rightarrow> PluginTranslator \<Rightarrow> PluginTranslator" where
  "loaded d s = (case load d s of Inl e \<Rightarrow> s | Inr s3 \<Rightarrow> s3)"




text \<open>A state whose target languages include the source language.\<close>

definition source_target_state :: PluginTranslator where
  "source_target_state = example_state\<lparr>target_languages := [''fr-FR'', ''en-US'']\<rparr>"

text \<open>Constants and environments for construction: a valid one without API key, whose
  core flag carries a leading blank, one with an invalid debug flag, and one with another
  source language and an invalid core flag.\<close>

definition example_constants :: constants where
  "example_constants =
     \<lparr>ALL_LANGUAGES = [''fr-FR'', ''en-US'', ''es-ES'', ''de-DE''], FR_FR = ''fr-FR'',
      INPUT_SOURCE_LANGUAGE = ''INPUT_SOURCE_LANGUAGE'',
      INPUT_TARGET_LANGUAGES = ''INPUT_TARGET_LANGUAGES'',
      INPUT_DEEPL_API_KEY = ''INPUT_DEEPL_API_KEY'',
      INPUT_INCLUDE_EMPTY_TRANSLATION = ''INPUT_INCLUDE_EMPTY_TRANSLATION'',
      INPUT_USE_CORE_TRANSLATIONS = ''INPUT_USE_CORE_TRANSLATIONS'',
      INPUT_GENERATE_SOURCE_LANGUAGE_TRANSLATIONS =
        ''INPUT_GENERATE_SOURCE_LANGUAGE_TRANSLATIONS'',
      INPUT_DEBUG = ''INPUT_DEBUG''\<rparr>"

definition example_environ :: "string \<rightharpoonup> string" where
  "example_environ =
     [''INPUT_SOURCE_LANGUAGE'' \<mapsto> ''fr-FR'',
      ''INPUT_TARGET_LANGUAGES'' \<mapsto> ''en-US, es-ES'',
      ''INPUT_INCLUDE_EMPTY_TRANSLATION'' \<mapsto> ''false'',
      ''INPUT_USE_CORE_TRANSLATIONS'' \<mapsto> '' true'',
      ''INPUT_GENERATE_SOURCE_LANGUAGE_TRANSLATIONS'' \<mapsto> ''False'',
      ''INPUT_DEBUG'' \<mapsto> ''TRUE'']"

definition debug_yes_environ :: "string \<rightharpoonup> string" where
  "debug_yes_environ = example_environ(''INPUT_DEBUG'' \<mapsto> ''yes'')"

definition banana_environ :: "string \<rightharpoonup> string" where
  "banana_environ =
     example_environ(''INPUT_SOURCE_LANGUAGE'' \<mapsto> ''en-US'',
                     ''INPUT_USE_CORE_TRANSLATIONS'' \<mapsto> ''banana'')"

definition example_info :: info_json where
  "example_info =
     \<lparr>info_id = ''x'', info_language = [''fr-FR'', ''de-DE''], info_description = None\<rparr>"

text \<open>Three calls of a function wrapped by a limiter of a tenth of a second: the clock at
  each entry of the wrapper and the overshoot of its sleep.\<close>

definition example_arrivals :: "(real \<times> real) list" where
  "example_arrivals = [(1 / 20, 1 / 1000), (3 / 25, 0), (1, 0)]"

section \<open>Facts on translation resolution\<close>

lemma cell_add_translation:
  "cell (add_translation tr l t r) t' l' = (if t' = t \<and> l' = l then Some r else cell tr t' l')"
  by (auto simp: cell_def add_translation_def get_translations_def split: option.splits)

lemma get_translations_cell:
  "contains tr t \<Longrightarrow> get_translations tr t l = cell tr t l"
  by (auto simp: cell_def contains_def get_translations_def split: option.splits)

lemma cell_not_contains: "\<not> contains tr t \<Longrightarrow> cell tr t l = None"
  by (simp add: cell_def contains_def)

lemma transalte_frame:
  "transalte_with_deepl prov s t l = (tr, s1) \<Longrightarrow>
     source_language s1 = source_language s \<and> target_languages s1 = target_languages s \<and>
     deepl_translator_field s1 = deepl_translator_field s \<and> deepl_api_key s1 = deepl_api_key s \<and>
     existing_translations s1 = existing_translations s \<and> files s1 = files s \<and>
     info_json_content s1 = info_json_content s \<and>
     include_empty_translation s1 = include_empty_translation s \<and>
     generate_source_language_translations s1 = generate_source_language_translations s"
  by (auto simp: transalte_with_deepl_def Let_def split: if_splits)

lemma transalte_calls:
  "transalte_with_deepl prov s t l = (tr, s1) \<Longrightarrow>
     \<exists>cs. calls s1 = calls s @ cs \<and> api_call_counter s1 = api_call_counter s + length cs \<and>
          (\<forall>c\<in>set cs. call_text c = t \<and> call_lang c = l \<and> call_returned c = tr)"
  by (auto simp: transalte_with_deepl_def Let_def split: if_splits)

lemma languages_rule:
  assumes "do_translate_languages prov ls p s = (p', s')"
    and "\<And>p s. Q [] p s p s"
    and "\<And>l ls p s p' s'. l = source_language s \<or> has_translation p l \<Longrightarrow>
           do_translate_languages prov ls p s = (p', s') \<Longrightarrow>
           Q ls p s p' s' \<Longrightarrow> Q (l # ls) p s p' s'"
    and "\<And>l ls p s tr s1 p' s'. l \<noteq> source_language s \<Longrightarrow> \<not> has_translation p l \<Longrightarrow>
           transalte_with_deepl prov s (get_text p) l = (tr, s1) \<Longrightarrow>
           do_translate_languages prov ls (set_translation p l tr)
             (s1\<lparr>existing_translations :=
                   add_translation (existing_translations s1) l (get_text p) tr\<rparr>) = (p', s') \<Longrightarrow>
           Q ls (set_translation p l tr)
             (s1\<lparr>existing_translations :=
                   add_translation (existing_translations s1) l (get_text p) tr\<rparr>) p' s' \<Longrightarrow>
           Q (l # ls) p s p' s'"
  shows "Q ls p s p' s'"
  using assms(1)
proof (induction ls arbitrary: p s)
  case Nil
  then show ?case using assms(2) by simp
next
  case (Cons l ls)
  show ?case
  proof (cases "l = source_language s \<or> has_translation p l")
    case True
    with Cons.prems have r: "do_translate_languages prov ls p s = (p', s')"
      by (auto split: if_splits)
    from assms(3)[OF True r Cons.IH[OF r]] show ?thesis .
  next
    case False
    obtain tr s1 where t: "transalte_with_deepl prov s (get_text p) l = (tr, s1)"
      by (cases "transalte_with_deepl prov s (get_text p) l")
    from False Cons.prems t
    have r: "do_translate_languages prov ls (set_translation p l tr)
            (s1\<lparr>existing_translations :=
                  add_translation (existing_translations s1) l (get_text p) tr\<rparr>) = (p', s')"
      by simp
    from False have a: "l \<noteq> source_language s" and b: "\<not> has_translation p l" by auto
    from assms(4)[OF a b t r Cons.IH[OF r]] show ?thesis .
  qed
qed

lemma languages_frame:
  assumes "do_translate_languages prov ls p s = (p', s')"
  shows "source_language s' = source_language s \<and> target_languages s' = target_languages s \<and>
     deepl_translator_field s' = deepl_translator_field s \<and> deepl_api_key s' = deepl_api_key s \<and>
     files s' = files s \<and> info_json_content s' = info_json_content s \<and>
     include_empty_translation s' = include_empty_translation s \<and>
     generate_source_language_translations s' = generate_source_language_translations s \<and>
     get_text p' = get_text p"
  using assms
proof (rule languages_rule, goal_cases)
  case (1 p s)
  show ?case by simp
next
  case (2 l ls p s p' s')
  then show ?case by simp
next
  case (3 l ls p s tr s1 p' s')
  from 3(5) transalte_frame[OF 3(3)] show ?case by (simp add: set_translation_def)
qed

lemma languages_keeps:
  assumes "do_translate_languages prov ls p s = (p', s')"
  shows "prompt_translations p l0 = Some x \<longrightarrow> prompt_translations p' l0 = Some x"
  using assms
proof (rule languages_rule, goal_cases)
  case (1 p s)
  show ?case by simp
next
  case (2 l ls p s p' s')
  then show ?case by simp
next
  case (3 l ls p s tr s1 p' s')
  then show ?case by (auto simp: set_translation_def has_translation_def split: if_splits)
qed

lemma languages_calls:
  assumes "do_translate_languages prov ls p s = (p', s')"
  shows "\<exists>cs. calls s' = calls s @ cs \<and> api_call_counter s' = api_call_counter s + length cs \<and>
     (\<forall>c\<in>set cs. call_text c = get_text p \<and> call_lang c \<in> set ls \<and>
        call_lang c \<noteq> source_language s \<and> prompt_translations p (call_lang c) = None)"
  using assms
proof (rule languages_rule, goal_cases)
  case (1 p s)
  show ?case by simp
next
  case (2 l ls p s p' s')
  then show ?case by auto
next
  case (3 l ls p s tr s1 p' s')
  from transalte_calls[OF 3(3)] obtain cs1 where
    c1: "calls s1 = calls s @ cs1" "api_call_counter s1 = api_call_counter s + length cs1"
        "\<forall>c\<in>set cs1. call_text c = get_text p \<and> call_lang c = l \<and> call_returned c = tr"
    by blast
  from 3(5) obtain cs2 where
    c2: "calls s' = calls s1 @ cs2" "api_call_counter s' = api_call_counter s1 + length cs2"
        "\<forall>c\<in>set cs2. call_text c = get_text p \<and> call_lang c \<in> set ls \<and>
            call_lang c \<noteq> source_language s1 \<and>
            prompt_translations (set_translation p l tr) (call_lang c) = None"
    by (auto simp: set_translation_def)
  have src: "source_language s1 = source_language s" using transalte_frame[OF 3(3)] by simp
  have "\<forall>c\<in>set (cs1 @ cs2). call_text c = get_text p \<and> call_lang c \<in> set (l # ls) \<and>
        call_lang c \<noteq> source_language s \<and> prompt_translations p (call_lang c) = None"
    using c1(3) c2(3) 3(1,2) src
    by (auto simp: set_translation_def has_translation_def split: if_splits)
  moreover have "calls s' = calls s @ (cs1 @ cs2)" using c1 c2 by simp
  moreover have "api_call_counter s' = api_call_counter s + length (cs1 @ cs2)" using c1 c2 by simp
  ultimately show ?case by blast
qed

lemma languages_inv:
  assumes "do_translate_languages prov ls p s = (p', s')"
  shows "covers p s \<and> logged s \<longrightarrow>
     covers p' s' \<and> logged s' \<and>
     (\<forall>t l r. cell (existing_translations s) t l = Some r \<longrightarrow>
              cell (existing_translations s') t l = Some r)"
  using assms
proof (rule languages_rule, goal_cases)
  case (1 p s)
  show ?case by simp
next
  case (2 l ls p s p' s')
  then show ?case by simp
next
  case (3 l ls p s tr s1 p' s')
  let ?s2 = "s1\<lparr>existing_translations :=
                   add_translation (existing_translations s1) l (get_text p) tr\<rparr>"
  let ?p2 = "set_translation p l tr"
  show ?case
  proof (intro impI)
    assume a: "covers p s \<and> logged s"
    note f = transalte_frame[OF 3(3)]
    from a 3(2) have absent: "cell (existing_translations s) (get_text p) l = None"
      by (auto simp: covers_def has_translation_def)
    from transalte_calls[OF 3(3)] obtain cs1 where
      c1: "calls s1 = calls s @ cs1" "length cs1 \<le> 1 \<or> True"
        "\<forall>c\<in>set cs1. call_text c = get_text p \<and> call_lang c = l \<and> call_returned c = tr"
      by blast
    have len: "length cs1 \<le> 1"
      using 3(3) c1(1) by (auto simp: transalte_with_deepl_def Let_def split: if_splits)
    have cov2: "covers ?p2 ?s2"
      using a f by (auto simp: covers_def set_translation_def cell_add_translation)
    have old: "\<forall>c\<in>set (calls s). call_key c \<noteq> (get_text p, l)"
      using a absent by (auto simp: logged_def call_key_def)
    have d1: "distinct (map call_key cs1)"
      using len by (cases cs1) auto
    have log2: "logged ?s2"
      using a f c1 old d1
      by (auto simp: logged_def cell_add_translation call_key_def)
    from 3(5) cov2 log2 have r: "covers p' s' \<and> logged s' \<and>
       (\<forall>t l' r. cell (existing_translations ?s2) t l' = Some r \<longrightarrow>
              cell (existing_translations s') t l' = Some r)" by blast
    have "\<forall>t l' r. cell (existing_translations s) t l' = Some r \<longrightarrow>
              cell (existing_translations ?s2) t l' = Some r"
      using absent f by (auto simp: cell_add_translation)
    with r show "covers p' s' \<and> logged s' \<and>
     (\<forall>t l r. cell (existing_translations s) t l = Some r \<longrightarrow>
              cell (existing_translations s') t l = Some r)" by blast
  qed
qed

lemma languages_exact:
  assumes "do_translate_languages prov ls p s = (p', s')"
  shows "mirrors p s \<longrightarrow> mirrors p' s'"
  using assms
proof (rule languages_rule, goal_cases)
  case (1 p s)
  show ?case by simp
next
  case (2 l ls p s p' s')
  then show ?case by simp
next
  case (3 l ls p s tr s1 p' s')
  from transalte_frame[OF 3(3)] 3(1) have
    "mirrors p s \<Longrightarrow> mirrors (set_translation p l tr)
       (s1\<lparr>existing_translations := add_translation (existing_translations s1) l (get_text p) tr\<rparr>)"
    by (auto simp: mirrors_def set_translation_def cell_add_translation)
  with 3(5) show ?case by blast
qed

lemma languages_all:
  assumes "do_translate_languages prov ls p s = (p', s')"
  shows "\<forall>l\<in>set ls. l \<noteq> source_language s \<longrightarrow> prompt_translations p' l \<noteq> None"
  using assms
proof (rule languages_rule, goal_cases)
  case (1 p s)
  show ?case by simp
next
  case (2 l ls p s p' s')
  from languages_keeps[OF 2(2), of l] 2(1,3) show ?case
    by (auto simp: has_translation_def)
next
  case (3 l ls p s tr s1 p' s')
  from languages_keeps[OF 3(4), of l tr] have "prompt_translations p' l = Some tr"
    by (simp add: set_translation_def)
  with 3(5) transalte_frame[OF 3(3)] show ?case by auto
qed

lemma property_frame:
  "source_language (deepl_translator s) = source_language s"
  "target_languages (deepl_translator s) = target_languages s"
  "deepl_api_key (deepl_translator s) = deepl_api_key s"
  "existing_translations (deepl_translator s) = existing_translations s"
  "files (deepl_translator s) = files s"
  "calls (deepl_translator s) = calls s"
  "api_call_counter (deepl_translator s) = api_call_counter s"
  "info_json_content (deepl_translator s) = info_json_content s"
  "include_empty_translation (deepl_translator s) = include_empty_translation s"
  "generate_source_language_translations (deepl_translator s) =
     generate_source_language_translations s"
  by (auto simp: deepl_translator_def split: option.splits)

lemma property_field:
  "(deepl_translator_field (deepl_translator s) \<noteq> None) = provider_available s"
  by (auto simp: deepl_translator_def provider_available_def split: option.splits)

lemma property_none:
  "\<not> provider_available s \<Longrightarrow> deepl_translator s = s"
  by (auto simp: deepl_translator_def provider_available_def)

lemma property_available: "provider_available (deepl_translator s) = provider_available s"
  by (auto simp: deepl_translator_def provider_available_def split: option.splits)

lemma prompt_unfold:
  "do_translate_prompt prov p s =
     (if provider_available s
      then do_translate_languages prov (target_languages s) (resolve_from_cache s p)
             (deepl_translator s)
      else (resolve_from_cache s p, s))"
  using property_field[of s] property_none[of s]
  by (auto simp: do_translate_prompt_def resolve_from_cache_def Let_def property_frame
      set_translations_def)

lemma resolve_text: "get_text (resolve_from_cache s p) = get_text p"
  by (simp add: resolve_from_cache_def set_translation_def set_translations_def)

lemma resolve_source:
  "prompt_translations (resolve_from_cache s p) (source_language s) = Some (get_text p)"
  by (simp add: resolve_from_cache_def set_translation_def set_translations_def)

lemma resolve_cached:
  "cell (existing_translations s) (get_text p) l = Some t \<Longrightarrow> l \<noteq> source_language s \<Longrightarrow>
   prompt_translations (resolve_from_cache s p) l = Some t"
  using get_translations_cell[of "existing_translations s" "get_text p" l]
    cell_not_contains[of "existing_translations s" "get_text p" l]
  by (auto simp: resolve_from_cache_def set_translation_def set_translations_def)

lemma resolve_covers: "covers (resolve_from_cache s p) (deepl_translator s)"
  unfolding covers_def property_frame resolve_text
proof (intro allI impI)
  fix l assume "cell (existing_translations s) (get_text p) l \<noteq> None"
  then obtain t where t: "cell (existing_translations s) (get_text p) l = Some t" by auto
  show "prompt_translations (resolve_from_cache s p) l \<noteq> None"
  proof (cases "l = source_language s")
    case True
    then show ?thesis using resolve_source[of s p] by simp
  next
    case False
    from resolve_cached[OF t False] show ?thesis by simp
  qed
qed

lemma resolve_exact:
  "prompt_translations p = Map.empty \<Longrightarrow> mirrors (resolve_from_cache s p) (deepl_translator s)"
  unfolding mirrors_def property_frame resolve_text
  using get_translations_cell[of "existing_translations s" "get_text p"]
    cell_not_contains[of "existing_translations s" "get_text p"]
  by (auto simp: resolve_from_cache_def set_translation_def set_translations_def)

lemma logged_property: "logged (deepl_translator s) = logged s"
  by (simp add: logged_def property_frame)

lemma prompt_frame:
  assumes "do_translate_prompt prov p s = (p', s')"
  shows "source_language s' = source_language s \<and> target_languages s' = target_languages s \<and>
     deepl_api_key s' = deepl_api_key s \<and>
     files s' = files s \<and> info_json_content s' = info_json_content s \<and>
     include_empty_translation s' = include_empty_translation s \<and>
     generate_source_language_translations s' = generate_source_language_translations s \<and>
     get_text p' = get_text p \<and> provider_available s' = provider_available s"
proof (cases "provider_available s")
  case True
  with assms have "do_translate_languages prov (target_languages s) (resolve_from_cache s p)
             (deepl_translator s) = (p', s')" by (simp add: prompt_unfold)
  from languages_frame[OF this] True property_available[of s] show ?thesis
    by (simp add: property_frame resolve_text provider_available_def)
next
  case False
  with assms show ?thesis by (auto simp: prompt_unfold resolve_text)
qed

lemma prompt_source:
  assumes "do_translate_prompt prov p s = (p', s')"
  shows "prompt_translations p' (source_language s) = Some (get_text p)"
proof (cases "provider_available s")
  case True
  with assms have "do_translate_languages prov (target_languages s) (resolve_from_cache s p)
             (deepl_translator s) = (p', s')" by (simp add: prompt_unfold)
  from languages_keeps[OF this, of "source_language s" "get_text p"] show ?thesis
    by (simp add: resolve_source)
next
  case False
  with assms show ?thesis by (auto simp: prompt_unfold resolve_source)
qed

lemma prompt_cached:
  assumes "do_translate_prompt prov p s = (p', s')"
    and "cell (existing_translations s) (get_text p) l = Some t" and "l \<noteq> source_language s"
  shows "prompt_translations p' l = Some t"
proof (cases "provider_available s")
  case True
  with assms have "do_translate_languages prov (target_languages s) (resolve_from_cache s p)
             (deepl_translator s) = (p', s')" by (simp add: prompt_unfold)
  from languages_keeps[OF this, of l t] resolve_cached[OF assms(2,3)] show ?thesis by simp
next
  case False
  with assms(1) resolve_cached[OF assms(2,3)] show ?thesis by (auto simp: prompt_unfold)
qed

lemma prompt_calls:
  assumes "do_translate_prompt prov p s = (p', s')"
  shows "\<exists>cs. calls s' = calls s @ cs \<and> api_call_counter s' = api_call_counter s + length cs \<and>
     (\<forall>c\<in>set cs. call_text c = get_text p \<and> call_lang c \<in> set (target_languages s) \<and>
        call_lang c \<noteq> source_language s \<and>
        cell (existing_translations s) (get_text p) (call_lang c) = None)"
proof (cases "provider_available s")
  case True
  with assms have "do_translate_languages prov (target_languages s) (resolve_from_cache s p)
             (deepl_translator s) = (p', s')" by (simp add: prompt_unfold)
  from languages_calls[OF this] obtain cs where
    cs: "calls s' = calls s @ cs" "api_call_counter s' = api_call_counter s + length cs"
     "\<forall>c\<in>set cs. call_text c = get_text p \<and> call_lang c \<in> set (target_languages s) \<and>
        call_lang c \<noteq> source_language s \<and>
        prompt_translations (resolve_from_cache s p) (call_lang c) = None"
    by (auto simp: property_frame resolve_text)
  have "\<forall>c\<in>set cs. cell (existing_translations s) (get_text p) (call_lang c) = None"
  proof
    fix c assume c: "c \<in> set cs"
    show "cell (existing_translations s) (get_text p) (call_lang c) = None"
    proof (rule ccontr)
      assume "cell (existing_translations s) (get_text p) (call_lang c) \<noteq> None"
      then obtain t where "cell (existing_translations s) (get_text p) (call_lang c) = Some t"
        by auto
      from resolve_cached[OF this] cs(3) c show False by auto
    qed
  qed
  with cs show ?thesis by blast
next
  case False
  with assms show ?thesis by (auto simp: prompt_unfold)
qed

lemma prompt_inv:
  assumes "do_translate_prompt prov p s = (p', s')" and "logged s" and "calls_on_targets s"
  shows "logged s' \<and> calls_on_targets s' \<and> cache_grows s s'"
proof -
  have lm: "logged s' \<and> cache_grows s s'"
  proof (cases "provider_available s")
    case True
    with assms have "do_translate_languages prov (target_languages s) (resolve_from_cache s p)
             (deepl_translator s) = (p', s')" by (simp add: prompt_unfold)
    from languages_inv[OF this] resolve_covers[of s p] assms(2) show ?thesis
      by (simp add: logged_property cache_grows_def property_frame)
  next
    case False
    with assms show ?thesis by (auto simp: prompt_unfold cache_grows_def)
  qed
  from prompt_calls[OF assms(1)] prompt_frame[OF assms(1)] assms(3)
  have "calls_on_targets s'" by (auto simp: calls_on_targets_def)
  with lm show ?thesis by simp
qed

lemma prompt_full:
  assumes "do_translate_prompt prov p s = (p', s')" and "provider_available s"
    and "prompt_translations p = Map.empty"
  shows "resolved p' s'"
proof -
  from assms have r: "do_translate_languages prov (target_languages s) (resolve_from_cache s p)
             (deepl_translator s) = (p', s')" by (simp add: prompt_unfold)
  from languages_exact[OF r] resolve_exact[OF assms(3)] have e: "mirrors p' s'" by simp
  from languages_all[OF r] have
    a: "\<forall>l\<in>set (target_languages s). l \<noteq> source_language s \<longrightarrow> prompt_translations p' l \<noteq> None"
    by (simp add: property_frame)
  from prompt_frame[OF assms(1)] e a show ?thesis
    by (auto simp: resolved_def mirrors_def)
qed

lemma prompt_nokey:
  assumes "do_translate_prompt prov p s = (p', s')" and "\<not> provider_available s"
  shows "p' = resolve_from_cache s p \<and> s' = s"
  using assms by (auto simp: prompt_unfold)

lemma cache_grows_refl: "cache_grows s s"
  by (simp add: cache_grows_def)

lemma cache_grows_trans: "cache_grows s s1 \<Longrightarrow> cache_grows s1 s2 \<Longrightarrow> cache_grows s s2"
  by (simp add: cache_grows_def)

lemma resolved_grows:
  "resolved p s1 \<Longrightarrow> cache_grows s1 s2 \<Longrightarrow> target_languages s2 = target_languages s1 \<Longrightarrow>
   source_language s2 = source_language s1 \<Longrightarrow> resolved p s2"
  unfolding resolved_def cache_grows_def by fastforce

lemma prompts_rule:
  assumes "do_translate_prompts prov ps s = (ps', s')"
    and "\<And>s. Q [] s [] s"
    and "\<And>p ps s p' s1 ps' s2. do_translate_prompt prov p s = (p', s1) \<Longrightarrow>
           do_translate_prompts prov ps s1 = (ps', s2) \<Longrightarrow> Q ps s1 ps' s2 \<Longrightarrow>
           Q (p # ps) s (p' # ps') s2"
  shows "Q ps s ps' s'"
  using assms(1)
proof (induction ps arbitrary: s ps' s')
  case Nil
  then show ?case using assms(2) by simp
next
  case (Cons p ps)
  obtain p1 s1 where a: "do_translate_prompt prov p s = (p1, s1)"
    by (cases "do_translate_prompt prov p s")
  obtain ps2 s2 where b: "do_translate_prompts prov ps s1 = (ps2, s2)"
    by (cases "do_translate_prompts prov ps s1")
  from Cons.prems a b have e: "ps' = p1 # ps2" "s' = s2" by auto
  from assms(3)[OF a b Cons.IH[OF b]] e show ?case by simp
qed

lemma prompts_frame:
  assumes "do_translate_prompts prov ps s = (ps', s')"
  shows "source_language s' = source_language s \<and> target_languages s' = target_languages s \<and>
     deepl_api_key s' = deepl_api_key s \<and>
     files s' = files s \<and> info_json_content s' = info_json_content s \<and>
     include_empty_translation s' = include_empty_translation s \<and>
     generate_source_language_translations s' = generate_source_language_translations s \<and>
     map get_text ps' = map get_text ps \<and> provider_available s' = provider_available s"
  using assms
proof (rule prompts_rule, goal_cases)
  case (1 s)
  show ?case by simp
next
  case (2 p ps s p' s1 ps' s2)
  from prompt_frame[OF 2(1)] 2(3) show ?case by simp
qed

lemma prompts_source:
  assumes "do_translate_prompts prov ps s = (ps', s')"
  shows "\<forall>p\<in>set ps'. prompt_translations p (source_language s) = Some (get_text p)"
  using assms
proof (rule prompts_rule, goal_cases)
  case (1 s)
  show ?case by simp
next
  case (2 p ps s p' s1 ps' s2)
  from prompt_frame[OF 2(1)] prompt_source[OF 2(1)] 2(3) show ?case by simp
qed

lemma prompts_calls:
  assumes "do_translate_prompts prov ps s = (ps', s')"
  shows "\<exists>cs. calls s' = calls s @ cs \<and> api_call_counter s' = api_call_counter s + length cs"
  using assms
proof (rule prompts_rule, goal_cases)
  case (1 s)
  show ?case by simp
next
  case (2 p ps s p' s1 ps' s2)
  from prompt_calls[OF 2(1)] obtain cs1 where
    "calls s1 = calls s @ cs1" "api_call_counter s1 = api_call_counter s + length cs1" by blast
  moreover from 2(3) obtain cs2 where
    "calls s2 = calls s1 @ cs2" "api_call_counter s2 = api_call_counter s1 + length cs2" by blast
  ultimately have "calls s2 = calls s @ (cs1 @ cs2) \<and>
     api_call_counter s2 = api_call_counter s + length (cs1 @ cs2)" by simp
  then show ?case by blast
qed

lemma prompts_inv:
  assumes "do_translate_prompts prov ps s = (ps', s')"
  shows "logged s \<and> calls_on_targets s \<longrightarrow> logged s' \<and> calls_on_targets s' \<and> cache_grows s s'"
  using assms
proof (rule prompts_rule, goal_cases)
  case (1 s)
  show ?case by (simp add: cache_grows_refl)
next
  case (2 p ps s p' s1 ps' s2)
  show ?case
  proof
    assume a: "logged s \<and> calls_on_targets s"
    with prompt_inv[OF 2(1)] have b: "logged s1 \<and> calls_on_targets s1 \<and> cache_grows s s1" by simp
    with 2(3) have "logged s2 \<and> calls_on_targets s2 \<and> cache_grows s1 s2" by simp
    with b cache_grows_trans show "logged s2 \<and> calls_on_targets s2 \<and> cache_grows s s2" by blast
  qed
qed

lemma prompts_full:
  assumes "do_translate_prompts prov ps s = (ps', s')"
  shows "provider_available s \<and> logged s \<and> calls_on_targets s \<and> (\<forall>p\<in>set ps. prompt_translations p = Map.empty)
     \<longrightarrow> (\<forall>p\<in>set ps'. resolved p s')"
  using assms
proof (rule prompts_rule, goal_cases)
  case (1 s)
  show ?case by simp
next
  case (2 p ps s p' s1 ps' s2)
  show ?case
  proof
    assume a: "provider_available s \<and> logged s \<and> calls_on_targets s \<and>
      (\<forall>p\<in>set (p # ps). prompt_translations p = Map.empty)"
    then have f1: "resolved p' s1" using prompt_full[OF 2(1)] by simp
    from a prompt_inv[OF 2(1)] have i1: "logged s1 \<and> calls_on_targets s1" by simp
    from prompt_frame[OF 2(1)] a have av: "provider_available s1" by simp
    from prompts_inv[OF 2(2)] i1 have m: "cache_grows s1 s2" by simp
    from prompts_frame[OF 2(2)] resolved_grows[OF f1 m] have "resolved p' s2" by simp
    moreover from 2(3) av i1 a have "\<forall>p\<in>set ps'. resolved p s2" by simp
    ultimately show "\<forall>p\<in>set (p' # ps'). resolved p s2" by simp
  qed
qed

lemma prompts_nokey:
  assumes "do_translate_prompts prov ps s = (ps', s')"
  shows "\<not> provider_available s \<longrightarrow> ps' = map (resolve_from_cache s) ps \<and> s' = s"
  using assms
proof (rule prompts_rule, goal_cases)
  case (1 s)
  show ?case by simp
next
  case (2 p ps s p' s1 ps' s2)
  from prompt_nokey[OF 2(1)] 2(3) show ?case by auto
qed

lemma files_rule:
  assumes "do_translate_files prov fs s = (fs', s')"
    and "\<And>s. Q [] s [] s"
    and "\<And>path f fs s f' s1 fs' s2. do_translate_prompts prov f s = (f', s1) \<Longrightarrow>
           do_translate_files prov fs s1 = (fs', s2) \<Longrightarrow> Q fs s1 fs' s2 \<Longrightarrow>
           Q ((path, f) # fs) s ((path, f') # fs') s2"
  shows "Q fs s fs' s'"
  using assms(1)
proof (induction fs arbitrary: s fs' s')
  case Nil
  then show ?case using assms(2) by simp
next
  case (Cons pf fs)
  obtain path f where pf: "pf = (path, f)" by (cases pf)
  obtain f1 s1 where a: "do_translate_prompts prov f s = (f1, s1)"
    by (cases "do_translate_prompts prov f s")
  obtain fs2 s2 where b: "do_translate_files prov fs s1 = (fs2, s2)"
    by (cases "do_translate_files prov fs s1")
  from Cons.prems a b pf have e: "fs' = (path, f1) # fs2" "s' = s2" by auto
  from assms(3)[OF a b Cons.IH[OF b]] e pf show ?case by simp
qed

lemma files_frame:
  assumes "do_translate_files prov fs s = (fs', s')"
  shows "source_language s' = source_language s \<and> target_languages s' = target_languages s \<and>
     deepl_api_key s' = deepl_api_key s \<and>
     files s' = files s \<and> info_json_content s' = info_json_content s \<and>
     include_empty_translation s' = include_empty_translation s \<and>
     generate_source_language_translations s' = generate_source_language_translations s \<and>
     map fst fs' = map fst fs \<and>
     map (\<lambda>pf. map get_text (snd pf)) fs' = map (\<lambda>pf. map get_text (snd pf)) fs \<and>
     provider_available s' = provider_available s"
  using assms
proof (rule files_rule, goal_cases)
  case (1 s)
  show ?case by simp
next
  case (2 path f fs s f' s1 fs' s2)
  from prompts_frame[OF 2(1)] 2(3) show ?case by simp
qed

lemma files_source:
  assumes "do_translate_files prov fs s = (fs', s')"
  shows "\<forall>pf\<in>set fs'. \<forall>p\<in>set (snd pf).
           prompt_translations p (source_language s) = Some (get_text p)"
  using assms
proof (rule files_rule, goal_cases)
  case (1 s)
  show ?case by simp
next
  case (2 path f fs s f' s1 fs' s2)
  from prompts_frame[OF 2(1)] prompts_source[OF 2(1)] 2(3) show ?case by simp
qed

lemma files_calls:
  assumes "do_translate_files prov fs s = (fs', s')"
  shows "\<exists>cs. calls s' = calls s @ cs \<and> api_call_counter s' = api_call_counter s + length cs"
  using assms
proof (rule files_rule, goal_cases)
  case (1 s)
  show ?case by simp
next
  case (2 path f fs s f' s1 fs' s2)
  from prompts_calls[OF 2(1)] obtain cs1 where
    "calls s1 = calls s @ cs1" "api_call_counter s1 = api_call_counter s + length cs1" by blast
  moreover from 2(3) obtain cs2 where
    "calls s2 = calls s1 @ cs2" "api_call_counter s2 = api_call_counter s1 + length cs2" by blast
  ultimately have "calls s2 = calls s @ (cs1 @ cs2) \<and>
     api_call_counter s2 = api_call_counter s + length (cs1 @ cs2)" by simp
  then show ?case by blast
qed

lemma files_inv:
  assumes "do_translate_files prov fs s = (fs', s')"
  shows "logged s \<and> calls_on_targets s \<longrightarrow> logged s' \<and> calls_on_targets s' \<and> cache_grows s s'"
  using assms
proof (rule files_rule, goal_cases)
  case (1 s)
  show ?case by (simp add: cache_grows_refl)
next
  case (2 path f fs s f' s1 fs' s2)
  show ?case
  proof
    assume a: "logged s \<and> calls_on_targets s"
    with prompts_inv[OF 2(1)] have b: "logged s1 \<and> calls_on_targets s1 \<and> cache_grows s s1" by simp
    with 2(3) have "logged s2 \<and> calls_on_targets s2 \<and> cache_grows s1 s2" by simp
    with b cache_grows_trans show "logged s2 \<and> calls_on_targets s2 \<and> cache_grows s s2" by blast
  qed
qed

lemma files_full:
  assumes "do_translate_files prov fs s = (fs', s')"
  shows "provider_available s \<and> logged s \<and> calls_on_targets s \<and>
     (\<forall>pf\<in>set fs. \<forall>p\<in>set (snd pf). prompt_translations p = Map.empty)
     \<longrightarrow> (\<forall>pf\<in>set fs'. \<forall>p\<in>set (snd pf). resolved p s')"
  using assms
proof (rule files_rule, goal_cases)
  case (1 s)
  show ?case by simp
next
  case (2 path f fs s f' s1 fs' s2)
  show ?case
  proof
    assume a: "provider_available s \<and> logged s \<and> calls_on_targets s \<and>
      (\<forall>pf\<in>set ((path, f) # fs). \<forall>p\<in>set (snd pf). prompt_translations p = Map.empty)"
    then have f1: "\<forall>p\<in>set f'. resolved p s1" using prompts_full[OF 2(1)] by simp
    from a prompts_inv[OF 2(1)] have i1: "logged s1 \<and> calls_on_targets s1" by simp
    from prompts_frame[OF 2(1)] a have av: "provider_available s1" by simp
    from files_inv[OF 2(2)] i1 have m: "cache_grows s1 s2" by simp
    from files_frame[OF 2(2)] f1 m have "\<forall>p\<in>set f'. resolved p s2"
      by (auto intro: resolved_grows)
    moreover from 2(3) av i1 a have "\<forall>pf\<in>set fs'. \<forall>p\<in>set (snd pf). resolved p s2" by simp
    ultimately show "\<forall>pf\<in>set ((path, f') # fs'). \<forall>p\<in>set (snd pf). resolved p s2" by simp
  qed
qed

lemma files_nokey:
  assumes "do_translate_files prov fs s = (fs', s')"
  shows "\<not> provider_available s \<longrightarrow>
     fs' = map (\<lambda>pf. (fst pf, map (resolve_from_cache s) (snd pf))) fs \<and> s' = s"
  using assms
proof (rule files_rule, goal_cases)
  case (1 s)
  show ?case by simp
next
  case (2 path f fs s f' s1 fs' s2)
  from prompts_nokey[OF 2(1)] 2(3) show ?case by auto
qed

section \<open>Translation resolution as a whole\<close>

lemma do_translate_unfold:
  obtains fs' s1 where "do_translate_files prov (files s) s = (fs', s1)"
    and "do_translate prov s = s1\<lparr>files := fs'\<rparr>"
  by (cases "do_translate_files prov (files s) s") (auto simp: do_translate_def)

lemma example_calls:
  "calls (do_translate prov_ok example_state) =
     [\<lparr>call_at = 0, call_text = ''Hello'', call_lang = ''en-US'',
        call_returned = ''en-US:Hello''\<rparr>,
      \<lparr>call_at = 1 / 100, call_text = ''Hello'', call_lang = ''es-ES'',
        call_returned = ''es-ES:Hello''\<rparr>,
      \<lparr>call_at = 1 / 50, call_text = ''Bye'', call_lang = ''es-ES'',
        call_returned = ''es-ES:Bye''\<rparr>]"
  by (simp add: do_translate_def example_state_def hello_def bye_def do_translate_prompt_def
      deepl_translator_def contains_def get_translations_def set_translations_def
      set_translation_def has_translation_def transalte_with_deepl_def add_translation_def
      prov_ok_def Let_def)

lemma prompts_calls_texts:
  assumes "do_translate_prompts prov ps s = (ps', s')"
  shows "\<exists>cs. calls s' = calls s @ cs \<and> (\<forall>c\<in>set cs. call_text c \<in> get_text ` set ps)"
  using assms
proof (rule prompts_rule, goal_cases)
  case (1 s)
  show ?case by simp
next
  case (2 p ps s p' s1 ps' s2)
  from prompt_calls[OF 2(1)] obtain cs1 where
    c1: "calls s1 = calls s @ cs1" "\<forall>c\<in>set cs1. call_text c = get_text p" by blast
  from 2(3) obtain cs2 where
    c2: "calls s2 = calls s1 @ cs2" "\<forall>c\<in>set cs2. call_text c \<in> get_text ` set ps" by blast
  from c1 c2 have "calls s2 = calls s @ (cs1 @ cs2) \<and>
     (\<forall>c\<in>set (cs1 @ cs2). call_text c \<in> get_text ` set (p # ps))" by auto
  then show ?case by blast
qed

lemma files_calls_texts:
  assumes "do_translate_files prov fs s = (fs', s')"
  shows "\<exists>cs. calls s' = calls s @ cs \<and>
     (\<forall>c\<in>set cs. \<exists>pf\<in>set fs. call_text c \<in> get_text ` set (snd pf))"
  using assms
proof (rule files_rule, goal_cases)
  case (1 s)
  show ?case by simp
next
  case (2 path f fs s f' s1 fs' s2)
  from prompts_calls_texts[OF 2(1)] obtain cs1 where
    c1: "calls s1 = calls s @ cs1" "\<forall>c\<in>set cs1. call_text c \<in> get_text ` set f" by blast
  from 2(3) obtain cs2 where
    c2: "calls s2 = calls s1 @ cs2"
      "\<forall>c\<in>set cs2. \<exists>pf\<in>set fs. call_text c \<in> get_text ` set (snd pf)" by blast
  from c1 c2 have "calls s2 = calls s @ (cs1 @ cs2) \<and>
     (\<forall>c\<in>set (cs1 @ cs2). \<exists>pf\<in>set ((path, f) # fs). call_text c \<in> get_text ` set (snd pf))"
    by auto
  then show ?case by blast
qed

lemma files_texts:
  assumes "do_translate_files prov fs s = (fs', s')"
  shows "map (\<lambda>pf. (fst pf, map get_text (snd pf))) fs' =
         map (\<lambda>pf. (fst pf, map get_text (snd pf))) fs"
  using assms
proof (rule files_rule, goal_cases)
  case (1 s)
  show ?case by simp
next
  case (2 path f fs s f' s1 fs' s2)
  from prompts_frame[OF 2(1)] 2(3) show ?case by simp
qed

text \<open>C1. Starting from an empty call log, \<^verbatim>\<open>do_translate\<close> calls the provider at most once
  for each pair of a text and a target language: the pairs of the calls made are pairwise
  distinct, each is the text of a prompt of the run with a target language other than the
  source language, and the call counter is raised by the number of calls. What a call returned
  is the cell of its pair in the cache afterwards, so that resolving any further prompt with
  the same text takes the value of that cell for the language and makes no call for it. No
  prompt is lost, and when the prompts start without entries, every prompt with the text of a
  call holds what the call returned for its language.\<close>

theorem do_translate_one_call_per_pair:
  assumes "calls s = []"
  shows "distinct (map call_key (calls (do_translate prov s))) \<and>
     api_call_counter (do_translate prov s) =
       api_call_counter s + length (calls (do_translate prov s)) \<and>
     (\<forall>c\<in>set (calls (do_translate prov s)).
        (\<exists>pf\<in>set (files s). call_text c \<in> get_text ` set (snd pf)) \<and>
        call_lang c \<in> set (target_languages s) \<and> call_lang c \<noteq> source_language s \<and>
        cell (existing_translations (do_translate prov s)) (call_text c) (call_lang c) =
          Some (call_returned c) \<and>
        (\<forall>prov2 q q' s2. get_text q = call_text c \<longrightarrow>
           do_translate_prompt prov2 q (do_translate prov s) = (q', s2) \<longrightarrow>
           prompt_translations q' (call_lang c) = Some (call_returned c) \<and>
           (\<forall>c2\<in>set (drop (length (calls (do_translate prov s))) (calls s2)).
              call_lang c2 \<noteq> call_lang c))) \<and>
     map (\<lambda>pf. (fst pf, map get_text (snd pf))) (files (do_translate prov s)) =
       map (\<lambda>pf. (fst pf, map get_text (snd pf))) (files s) \<and>
     ((\<forall>pf\<in>set (files s). \<forall>p\<in>set (snd pf). prompt_translations p = Map.empty) \<longrightarrow>
      (\<forall>c\<in>set (calls (do_translate prov s)).
         \<forall>pf\<in>set (files (do_translate prov s)). \<forall>p\<in>set (snd pf).
           get_text p = call_text c \<longrightarrow>
           prompt_translations p (call_lang c) = Some (call_returned c)))"
proof -
  let ?s' = "do_translate prov s"
  obtain fs' s1 where r: "do_translate_files prov (files s) s = (fs', s1)"
    and d: "?s' = s1\<lparr>files := fs'\<rparr>"
    by (rule do_translate_unfold)
  from assms have i: "logged s \<and> calls_on_targets s"
    by (simp add: logged_def calls_on_targets_def)
  with files_inv[OF r] have l: "logged s1" "calls_on_targets s1" by simp_all
  note fr = files_frame[OF r]
  have dist: "distinct (map call_key (calls ?s'))" using l d by (simp add: logged_def)
  from files_calls[OF r] assms d
  have cnt: "api_call_counter ?s' = api_call_counter s + length (calls ?s')" by auto
  have texts: "map (\<lambda>pf. (fst pf, map get_text (snd pf))) (files ?s') =
       map (\<lambda>pf. (fst pf, map get_text (snd pf))) (files s)"
    using files_texts[OF r] d by simp
  have each: "\<forall>c\<in>set (calls ?s').
        (\<exists>pf\<in>set (files s). call_text c \<in> get_text ` set (snd pf)) \<and>
        call_lang c \<in> set (target_languages s) \<and> call_lang c \<noteq> source_language s \<and>
        cell (existing_translations ?s') (call_text c) (call_lang c) = Some (call_returned c) \<and>
        (\<forall>prov2 q q' s2. get_text q = call_text c \<longrightarrow>
           do_translate_prompt prov2 q ?s' = (q', s2) \<longrightarrow>
           prompt_translations q' (call_lang c) = Some (call_returned c) \<and>
           (\<forall>c2\<in>set (drop (length (calls ?s')) (calls s2)). call_lang c2 \<noteq> call_lang c))"
  proof
    fix c assume "c \<in> set (calls ?s')"
    with d have c: "c \<in> set (calls s1)" by simp
    from files_calls_texts[OF r] assms c
    have t: "\<exists>pf\<in>set (files s). call_text c \<in> get_text ` set (snd pf)" by auto
    from c l fr have g: "call_lang c \<in> set (target_languages s)"
      "call_lang c \<noteq> source_language s"
      by (auto simp: calls_on_targets_def)
    from c l d have k: "cell (existing_translations ?s') (call_text c) (call_lang c) =
        Some (call_returned c)" by (auto simp: logged_def)
    have src: "source_language ?s' = source_language s" using d fr by simp
    have later: "\<forall>prov2 q q' s2. get_text q = call_text c \<longrightarrow>
           do_translate_prompt prov2 q ?s' = (q', s2) \<longrightarrow>
           prompt_translations q' (call_lang c) = Some (call_returned c) \<and>
           (\<forall>c2\<in>set (drop (length (calls ?s')) (calls s2)). call_lang c2 \<noteq> call_lang c)"
    proof (intro allI impI)
      fix prov2 q q' s2
      assume e: "get_text q = call_text c" and q: "do_translate_prompt prov2 q ?s' = (q', s2)"
      from k e have kq: "cell (existing_translations ?s') (get_text q) (call_lang c) =
          Some (call_returned c)" by simp
      from g src have ns: "call_lang c \<noteq> source_language ?s'" by simp
      from prompt_calls[OF q] obtain cs where
        cs: "calls s2 = calls ?s' @ cs"
         "\<forall>c2\<in>set cs. cell (existing_translations ?s') (get_text q) (call_lang c2) = None"
        by blast
      from cs kq have "\<forall>c2\<in>set (drop (length (calls ?s')) (calls s2)). call_lang c2 \<noteq> call_lang c"
        by auto
      with prompt_cached[OF q kq ns]
      show "prompt_translations q' (call_lang c) = Some (call_returned c) \<and>
           (\<forall>c2\<in>set (drop (length (calls ?s')) (calls s2)). call_lang c2 \<noteq> call_lang c)"
        by simp
    qed
    from t g k later
    show "(\<exists>pf\<in>set (files s). call_text c \<in> get_text ` set (snd pf)) \<and>
        call_lang c \<in> set (target_languages s) \<and> call_lang c \<noteq> source_language s \<and>
        cell (existing_translations ?s') (call_text c) (call_lang c) = Some (call_returned c) \<and>
        (\<forall>prov2 q q' s2. get_text q = call_text c \<longrightarrow>
           do_translate_prompt prov2 q ?s' = (q', s2) \<longrightarrow>
           prompt_translations q' (call_lang c) = Some (call_returned c) \<and>
           (\<forall>c2\<in>set (drop (length (calls ?s')) (calls s2)). call_lang c2 \<noteq> call_lang c))"
      by blast
  qed
  have fresh: "(\<forall>pf\<in>set (files s). \<forall>p\<in>set (snd pf). prompt_translations p = Map.empty) \<longrightarrow>
      (\<forall>c\<in>set (calls ?s'). \<forall>pf\<in>set (files ?s'). \<forall>p\<in>set (snd pf).
           get_text p = call_text c \<longrightarrow>
           prompt_translations p (call_lang c) = Some (call_returned c))"
  proof (intro impI ballI)
    fix c pf p
    assume f0: "\<forall>pf\<in>set (files s). \<forall>p\<in>set (snd pf). prompt_translations p = Map.empty"
      and c0: "c \<in> set (calls ?s')" and pf: "pf \<in> set (files ?s')" and p: "p \<in> set (snd pf)"
      and e: "get_text p = call_text c"
    from c0 d have c: "c \<in> set (calls s1)" by simp
    have av: "provider_available s"
    proof (rule ccontr)
      assume "\<not> provider_available s"
      with files_nokey[OF r] assms c show False by simp
    qed
    with files_full[OF r] i f0 have "\<forall>pf\<in>set fs'. \<forall>p\<in>set (snd pf). resolved p s1" by simp
    with pf p d have "resolved p s1" by simp
    moreover from c l have "call_lang c \<in> set (target_languages s1)"
      "call_lang c \<noteq> source_language s1"
      by (auto simp: calls_on_targets_def)
    ultimately obtain x where "prompt_translations p (call_lang c) = Some x"
      "cell (existing_translations s1) (get_text p) (call_lang c) = Some x"
      unfolding resolved_def by blast
    moreover from c l have "cell (existing_translations s1) (call_text c) (call_lang c) =
        Some (call_returned c)" by (auto simp: logged_def)
    ultimately show "prompt_translations p (call_lang c) = Some (call_returned c)"
      using e by simp
  qed
  from dist cnt each texts fresh show ?thesis by blast
qed

theorem do_translate_one_call_per_pair_witness:
  "calls example_state = [] \<and>
   list_all (\<lambda>pf. list_all (\<lambda>p. prompt_translations p = Map.empty) (snd pf))
     (files example_state) \<and>
   distinct (map call_key (calls (do_translate prov_ok example_state))) \<and>
   map (\<lambda>c. (call_text c, call_lang c, call_returned c))
     (calls (do_translate prov_ok example_state)) =
     [(''Hello'', ''en-US'', ''en-US:Hello''), (''Hello'', ''es-ES'', ''es-ES:Hello''),
      (''Bye'', ''es-ES'', ''es-ES:Bye'')] \<and>
   api_call_counter (do_translate prov_ok example_state) = 3 \<and>
   cell (existing_translations (do_translate prov_ok example_state)) ''Hello'' ''en-US'' =
     Some ''en-US:Hello'' \<and>
   map (\<lambda>pf. (fst pf, map (\<lambda>p. (get_text p, prompt_translations p ''en-US'')) (snd pf)))
     (files (do_translate prov_ok example_state)) =
     [(''plugins/x/a.php'',
         [(''Hello'', Some ''en-US:Hello''), (''Bye'', Some ''Goodbye'')]),
      (''plugins/x/b.php'', [(''Hello'', Some ''en-US:Hello'')])]"
proof -
  have h: "calls example_state = []" by (simp add: example_state_def)
  have c: "api_call_counter example_state = 0" by (simp add: example_state_def)
  have f: "list_all (\<lambda>pf. list_all (\<lambda>p. prompt_translations p = Map.empty) (snd pf))
     (files example_state)"
    by (simp add: example_state_def hello_def bye_def)
  have m: "\<lparr>call_at = 0, call_text = ''Hello'', call_lang = ''en-US'',
       call_returned = ''en-US:Hello''\<rparr> \<in> set (calls (do_translate prov_ok example_state))"
    by (simp add: example_calls)
  have v: "map (\<lambda>pf. (fst pf, map (\<lambda>p. (get_text p, prompt_translations p ''en-US'')) (snd pf)))
     (files (do_translate prov_ok example_state)) =
     [(''plugins/x/a.php'',
         [(''Hello'', Some ''en-US:Hello''), (''Bye'', Some ''Goodbye'')]),
      (''plugins/x/b.php'', [(''Hello'', Some ''en-US:Hello'')])]"
    by (simp add: do_translate_def example_state_def hello_def bye_def do_translate_prompt_def
      deepl_translator_def contains_def get_translations_def set_translations_def
      set_translation_def has_translation_def transalte_with_deepl_def add_translation_def
      prov_ok_def Let_def)
  from do_translate_one_call_per_pair[OF h, of prov_ok] m
  have k: "distinct (map call_key (calls (do_translate prov_ok example_state)))"
    "api_call_counter (do_translate prov_ok example_state) =
       api_call_counter example_state + length (calls (do_translate prov_ok example_state))"
    "cell (existing_translations (do_translate prov_ok example_state)) ''Hello'' ''en-US'' =
       Some ''en-US:Hello''"
    by (simp, simp, fastforce)
  from k(2) have n: "api_call_counter (do_translate prov_ok example_state) = 3"
    by (simp add: c example_calls)
  from h f k(1) k(3) n v show ?thesis by (simp add: example_calls)
qed

text \<open>C3. After \<^verbatim>\<open>do_translate\<close>, every prompt of every file has its own text as
  source-language entry, whatever the cache held for the source language and whatever the
  provider answers; paths and texts of the prompts are the ones before.\<close>

theorem source_entry_is_text:
  "(\<forall>pf\<in>set (files (do_translate prov s)). \<forall>p\<in>set (snd pf).
      prompt_translations p (source_language s) = Some (get_text p)) \<and>
   map (\<lambda>pf. (fst pf, map get_text (snd pf))) (files (do_translate prov s)) =
     map (\<lambda>pf. (fst pf, map get_text (snd pf))) (files s)"
proof -
  obtain fs' s1 where r: "do_translate_files prov (files s) s = (fs', s1)"
    and d: "do_translate prov s = s1\<lparr>files := fs'\<rparr>"
    by (rule do_translate_unfold)
  from files_source[OF r] files_texts[OF r] d show ?thesis by simp
qed

theorem source_entry_is_text_witness:
  "cell (existing_translations example_state) ''Bye'' (source_language example_state) =
     Some ''stale'' \<and>
   map (\<lambda>pf. map (\<lambda>p. (get_text p, prompt_translations p ''fr-FR'')) (snd pf))
     (files (do_translate prov_ok example_state)) =
     [[(''Hello'', Some ''Hello''), (''Bye'', Some ''Bye'')], [(''Hello'', Some ''Hello'')]]"
proof -
  have a: "cell (existing_translations example_state) ''Bye'' (source_language example_state) =
     Some ''stale''" by (simp add: example_state_def cell_def)
  have s: "source_language example_state = ''fr-FR''" by (simp add: example_state_def)
  have f: "map (\<lambda>pf. (fst pf, map get_text (snd pf))) (files example_state) =
     [(''plugins/x/a.php'', [''Hello'', ''Bye'']), (''plugins/x/b.php'', [''Hello''])]"
    by (simp add: example_state_def hello_def bye_def)
  have "map (\<lambda>pf. map get_text (snd pf)) (files (do_translate prov_ok example_state)) =
     map snd (map (\<lambda>pf. (fst pf, map get_text (snd pf)))
       (files (do_translate prov_ok example_state)))"
    by (simp add: comp_def)
  also have "\<dots> = map snd (map (\<lambda>pf. (fst pf, map get_text (snd pf))) (files example_state))"
    using source_entry_is_text[of prov_ok example_state] by simp
  also have "\<dots> = [[''Hello'', ''Bye''], [''Hello'']]"
    unfolding f by simp
  finally have t: "map (\<lambda>pf. map get_text (snd pf))
      (files (do_translate prov_ok example_state)) = [[''Hello'', ''Bye''], [''Hello'']]" .
  have "\<forall>pf\<in>set (files (do_translate prov_ok example_state)). \<forall>p\<in>set (snd pf).
      (get_text p, prompt_translations p ''fr-FR'') = (get_text p, Some (get_text p))"
    using source_entry_is_text[of prov_ok example_state] s by simp
  then have "map (\<lambda>pf. map (\<lambda>p. (get_text p, prompt_translations p ''fr-FR'')) (snd pf))
     (files (do_translate prov_ok example_state)) =
     map (\<lambda>pf. map (\<lambda>p. (get_text p, Some (get_text p))) (snd pf))
       (files (do_translate prov_ok example_state))"
    by (intro map_cong refl) auto
  also have "\<dots> = map (map (\<lambda>t. (t, Some t)))
     (map (\<lambda>pf. map get_text (snd pf)) (files (do_translate prov_ok example_state)))"
    by (simp add: comp_def)
  also have "\<dots> = [[(''Hello'', Some ''Hello''), (''Bye'', Some ''Bye'')],
      [(''Hello'', Some ''Hello'')]]"
    by (simp add: t)
  finally show ?thesis using a by simp
qed

text \<open>C4 (amended). When the cache holds a translation of the text of a prompt for a
  language at the moment the prompt is resolved, resolving the prompt makes no remote call for
  that language. The prompt receives the cached value, unless the language is the source
  language: the entry of the source language is the text of the prompt.\<close>

theorem cached_language_not_called:
  assumes "do_translate_prompt prov p s = (p', s')"
    and "cell (existing_translations s) (get_text p) l = Some t"
  shows "(\<forall>c\<in>set (drop (length (calls s)) (calls s')). call_lang c \<noteq> l) \<and>
         prompt_translations p' l = Some (if l = source_language s then get_text p else t)"
proof -
  from prompt_calls[OF assms(1)] obtain cs where
    cs: "calls s' = calls s @ cs"
     "\<forall>c\<in>set cs. cell (existing_translations s) (get_text p) (call_lang c) = None"
    by blast
  from cs assms(2) have "\<forall>c\<in>set (drop (length (calls s)) (calls s')). call_lang c \<noteq> l"
    by auto
  with prompt_cached[OF assms] prompt_source[OF assms(1)] show ?thesis by simp
qed

lemma example_bye:
  "map call_lang (calls (snd (do_translate_prompt prov_ok bye example_state))) = [''es-ES''] \<and>
   prompt_translations (fst (do_translate_prompt prov_ok bye example_state)) ''en-US'' =
     Some ''Goodbye''"
  by (simp add: example_state_def hello_def bye_def do_translate_prompt_def
      deepl_translator_def contains_def get_translations_def set_translations_def
      set_translation_def has_translation_def transalte_with_deepl_def add_translation_def
      prov_ok_def Let_def)

theorem cached_language_not_called_witness:
  "cell (existing_translations example_state) (get_text bye) ''en-US'' = Some ''Goodbye'' \<and>
   map call_lang (drop (length (calls example_state))
     (calls (snd (do_translate_prompt prov_ok bye example_state)))) = [''es-ES''] \<and>
   prompt_translations (fst (do_translate_prompt prov_ok bye example_state)) ''en-US'' =
     Some ''Goodbye''"
proof -
  have a: "cell (existing_translations example_state) (get_text bye) ''en-US'' = Some ''Goodbye''"
    by (simp add: example_state_def bye_def cell_def)
  have b: "do_translate_prompt prov_ok bye example_state =
     (fst (do_translate_prompt prov_ok bye example_state),
      snd (do_translate_prompt prov_ok bye example_state))" by simp
  have c: "''en-US'' \<noteq> source_language example_state" by (simp add: example_state_def)
  have d: "calls example_state = []" by (simp add: example_state_def)
  from cached_language_not_called[OF b a] c
  have "prompt_translations (fst (do_translate_prompt prov_ok bye example_state)) ''en-US'' =
     Some ''Goodbye''" by simp
  with a d example_bye show ?thesis by simp
qed

theorem cached_language_not_called_counterexample:
  "source_language source_target_state = ''fr-FR'' \<and>
   ''fr-FR'' \<in> set (target_languages source_target_state) \<and>
   cell (existing_translations source_target_state) (get_text bye) ''fr-FR'' = Some ''stale'' \<and>
   calls (snd (do_translate_prompt prov_ok bye source_target_state)) = [] \<and>
   prompt_translations (fst (do_translate_prompt prov_ok bye source_target_state)) ''fr-FR'' =
     Some ''Bye'' \<and>
   prompt_translations (fst (do_translate_prompt prov_ok bye source_target_state)) ''fr-FR'' \<noteq>
     Some ''stale''"
  by (simp add: source_target_state_def example_state_def hello_def bye_def cell_def
      do_translate_prompt_def deepl_translator_def contains_def get_translations_def
      set_translations_def set_translation_def has_translation_def transalte_with_deepl_def
      add_translation_def prov_ok_def Let_def)

text \<open>C10. Starting from an empty call log and prompts without entries, after
  \<^verbatim>\<open>do_translate\<close> the cache holds, for every remote call made, exactly what the call
  returned under the text and the target language of the call, the empty string of a failed
  call included, and every prompt with that text holds the same value for that language.\<close>

theorem remote_result_recorded:
  assumes "calls s = []"
    and "\<forall>pf\<in>set (files s). \<forall>p\<in>set (snd pf). prompt_translations p = Map.empty"
  shows "\<forall>c\<in>set (calls (do_translate prov s)).
     cell (existing_translations (do_translate prov s)) (call_text c) (call_lang c) =
       Some (call_returned c) \<and>
     (\<forall>pf\<in>set (files (do_translate prov s)). \<forall>p\<in>set (snd pf).
        get_text p = call_text c \<longrightarrow> prompt_translations p (call_lang c) = Some (call_returned c))"
proof -
  obtain fs' s1 where r: "do_translate_files prov (files s) s = (fs', s1)"
    and d: "do_translate prov s = s1\<lparr>files := fs'\<rparr>"
    by (rule do_translate_unfold)
  from assms have i: "logged s \<and> calls_on_targets s"
    by (simp add: logged_def calls_on_targets_def)
  with files_inv[OF r] have l: "logged s1" "calls_on_targets s1" by simp_all
  show ?thesis
  proof (cases "provider_available s")
    case False
    with files_nokey[OF r] assms(1) d show ?thesis by simp
  next
    case True
    with files_full[OF r] i assms(2)
    have f: "\<forall>pf\<in>set fs'. \<forall>p\<in>set (snd pf). resolved p s1" by simp
    show ?thesis
    proof
      fix c assume "c \<in> set (calls (do_translate prov s))"
      with d have c: "c \<in> set (calls s1)" by simp
      with l have k: "cell (existing_translations s1) (call_text c) (call_lang c) =
          Some (call_returned c)"
        and t: "call_lang c \<in> set (target_languages s1)" "call_lang c \<noteq> source_language s1"
        by (auto simp: logged_def calls_on_targets_def)
      have "\<forall>pf\<in>set fs'. \<forall>p\<in>set (snd pf).
        get_text p = call_text c \<longrightarrow> prompt_translations p (call_lang c) = Some (call_returned c)"
      proof (intro ballI impI)
        fix pf p assume "pf \<in> set fs'" "p \<in> set (snd pf)" and e: "get_text p = call_text c"
        with f have "resolved p s1" by blast
        with t obtain x where "prompt_translations p (call_lang c) = Some x"
          "cell (existing_translations s1) (get_text p) (call_lang c) = Some x"
          unfolding resolved_def by blast
        with k e show "prompt_translations p (call_lang c) = Some (call_returned c)" by simp
      qed
      with k d show "cell (existing_translations (do_translate prov s)) (call_text c) (call_lang c) =
       Some (call_returned c) \<and>
       (\<forall>pf\<in>set (files (do_translate prov s)). \<forall>p\<in>set (snd pf).
        get_text p = call_text c \<longrightarrow> prompt_translations p (call_lang c) = Some (call_returned c))"
        by simp
    qed
  qed
qed

lemma example_bad:
  "calls (do_translate prov_bad example_state) =
     [\<lparr>call_at = 0, call_text = ''Hello'', call_lang = ''en-US'', call_returned = []\<rparr>,
      \<lparr>call_at = 1 / 100, call_text = ''Hello'', call_lang = ''es-ES'', call_returned = []\<rparr>,
      \<lparr>call_at = 1 / 50, call_text = ''Bye'', call_lang = ''es-ES'', call_returned = []\<rparr>] \<and>
   map (\<lambda>pf. (fst pf, map (\<lambda>p. (get_text p, map (prompt_translations p)
          [''en-US'', ''es-ES''])) (snd pf)))
     (files (do_translate prov_bad example_state)) =
   [(''plugins/x/a.php'',
       [(''Hello'', [Some [], Some []]), (''Bye'', [Some ''Goodbye'', Some []])]),
    (''plugins/x/b.php'', [(''Hello'', [Some [], Some []])])]"
  by (simp add: do_translate_def example_state_def hello_def bye_def do_translate_prompt_def
      deepl_translator_def contains_def get_translations_def set_translations_def
      set_translation_def has_translation_def transalte_with_deepl_def add_translation_def
      prov_bad_def Let_def)

theorem remote_result_recorded_witness:
  "calls example_state = [] \<and>
   list_all (\<lambda>pf. list_all (\<lambda>p. prompt_translations p = Map.empty) (snd pf))
     (files example_state) \<and>
   map (\<lambda>c. (call_text c, call_lang c, call_returned c))
     (calls (do_translate prov_bad example_state)) =
     [(''Hello'', ''en-US'', []), (''Hello'', ''es-ES'', []), (''Bye'', ''es-ES'', [])] \<and>
   cell (existing_translations (do_translate prov_bad example_state)) ''Hello'' ''en-US'' =
     Some [] \<and>
   map (\<lambda>pf. map (\<lambda>p. (get_text p, prompt_translations p ''en-US'')) (snd pf))
     (files (do_translate prov_bad example_state)) =
     [[(''Hello'', Some []), (''Bye'', Some ''Goodbye'')], [(''Hello'', Some [])]]"
proof -
  have a: "calls example_state = []" by (simp add: example_state_def)
  have b: "\<forall>pf\<in>set (files example_state). \<forall>p\<in>set (snd pf). prompt_translations p = Map.empty"
    by (simp add: example_state_def hello_def bye_def)
  then have b': "list_all (\<lambda>pf. list_all (\<lambda>p. prompt_translations p = Map.empty) (snd pf))
     (files example_state)" by (simp add: list_all_iff)
  have c: "map (\<lambda>c. (call_text c, call_lang c, call_returned c))
     (calls (do_translate prov_bad example_state)) =
     [(''Hello'', ''en-US'', []), (''Hello'', ''es-ES'', []), (''Bye'', ''es-ES'', [])]"
    using example_bad by simp
  have d: "map (\<lambda>pf. map (\<lambda>p. (get_text p, prompt_translations p ''en-US'')) (snd pf))
     (files (do_translate prov_bad example_state)) =
     [[(''Hello'', Some []), (''Bye'', Some ''Goodbye'')], [(''Hello'', Some [])]]"
    by (simp add: do_translate_def example_state_def hello_def bye_def do_translate_prompt_def
      deepl_translator_def contains_def get_translations_def set_translations_def
      set_translation_def has_translation_def transalte_with_deepl_def add_translation_def
      prov_bad_def Let_def)
  have "\<lparr>call_at = 0, call_text = ''Hello'', call_lang = ''en-US'', call_returned = []\<rparr>
      \<in> set (calls (do_translate prov_bad example_state))"
    using example_bad by simp
  with remote_result_recorded[OF a b, of prov_bad]
  have "cell (existing_translations (do_translate prov_bad example_state)) ''Hello'' ''en-US'' =
     Some []" by fastforce
  with a b' c d show ?thesis by simp
qed

section \<open>The remote call, the output and the run\<close>

text \<open>C7. A remote translation call, that is \<^verbatim>\<open>transalte_with_deepl\<close> with a provider handle,
  raises the call counter by one and logs one call; it returns the text of the result, and the
  empty string when the result has not the expected shape. It has no other outcome.\<close>

theorem remote_call_counted:
  assumes "transalte_with_deepl prov s t l = (tr, s1)" and "deepl_translator_field s \<noteq> None"
  shows "api_call_counter s1 = api_call_counter s + 1 \<and>
     length (calls s1) = length (calls s) + 1 \<and>
     tr = (case reply_result (prov (length (calls s)) t (source_language s) l) of
             TextResult x \<Rightarrow> x | OtherResult \<Rightarrow> []) \<and>
     (reply_result (prov (length (calls s)) t (source_language s) l) = OtherResult \<longrightarrow> tr = [])"
  using assms by (auto simp: transalte_with_deepl_def Let_def)

theorem remote_call_counted_witness:
  "deepl_translator_field (deepl_translator example_state) \<noteq> None \<and>
   reply_result (prov_bad 0 ''Hello'' ''fr-FR'' ''en-US'') = OtherResult \<and>
   fst (transalte_with_deepl prov_bad (deepl_translator example_state) ''Hello'' ''en-US'') = [] \<and>
   api_call_counter
     (snd (transalte_with_deepl prov_bad (deepl_translator example_state) ''Hello'' ''en-US'')) = 1"
proof -
  have a: "deepl_translator_field (deepl_translator example_state) \<noteq> None"
    by (simp add: deepl_translator_def example_state_def)
  have b: "reply_result (prov_bad 0 ''Hello'' ''fr-FR'' ''en-US'') = OtherResult"
    by (simp add: prov_bad_def)
  have c: "api_call_counter (deepl_translator example_state) = 0"
    "calls (deepl_translator example_state) = []"
    "source_language (deepl_translator example_state) = ''fr-FR''"
    by (simp_all add: deepl_translator_def example_state_def)
  have d: "transalte_with_deepl prov_bad (deepl_translator example_state) ''Hello'' ''en-US'' =
     (fst (transalte_with_deepl prov_bad (deepl_translator example_state) ''Hello'' ''en-US''),
      snd (transalte_with_deepl prov_bad (deepl_translator example_state) ''Hello'' ''en-US''))"
    by simp
  from remote_call_counted[OF d a] a b c show ?thesis by simp
qed

lemma write_languages_entries:
  "ld \<in> set (write_languages s ls) \<Longrightarrow>
     fst ld \<in> set ls \<and> snd ld = language_result s (fst ld) \<and> snd ld \<noteq> []"
  by (induction ls) (auto split: if_splits)

lemma language_result_entries:
  "e \<in> set (language_result s l) \<Longrightarrow>
     snd e \<noteq> [] \<and>
     (\<exists>f. (fst e, f) \<in> set (files s) \<and>
          snd e = get_prompts_and_translation f l (include_empty_translation s))"
  by (auto simp: language_result_def)

lemma qualifying_prompt:
  "get_prompts_and_translation f l inc \<noteq> [] \<Longrightarrow>
     \<exists>p\<in>set f. get_translation p l \<noteq> [] \<or> inc"
  by (auto simp: get_prompts_and_translation_def filter_empty_conv)

text \<open>C8. Every file written by \<^verbatim>\<open>write_plugin_translations\<close> holds the document assembled
  for its language, which is not empty, and every entry of a document belongs to a source file
  and holds the qualifying prompts of that file, of which there is at least one. So a language
  whose document is empty has no file written.\<close>

theorem written_entries_qualify:
  "\<forall>ld\<in>set (write_plugin_translations s).
     snd ld = language_result s (fst ld) \<and> snd ld \<noteq> [] \<and>
     (\<forall>e\<in>set (snd ld).
        snd e \<noteq> [] \<and>
        (\<exists>f. (fst e, f) \<in> set (files s) \<and>
             snd e = get_prompts_and_translation f (fst ld) (include_empty_translation s) \<and>
             (\<exists>p\<in>set f. get_translation p (fst ld) \<noteq> [] \<or> include_empty_translation s)))"
proof (intro ballI conjI)
  fix ld assume a: "ld \<in> set (write_plugin_translations s)"
  then have w: "snd ld = language_result s (fst ld)" "snd ld \<noteq> []"
    using write_languages_entries[of ld s "target_languages s"]
    by (auto simp: write_plugin_translations_def)
  show "snd ld = language_result s (fst ld)" by (rule w(1))
  show "snd ld \<noteq> []" by (rule w(2))
  fix e assume "e \<in> set (snd ld)"
  with w have e: "e \<in> set (language_result s (fst ld))" by simp
  from language_result_entries[OF e] obtain f where
    f: "snd e \<noteq> []" "(fst e, f) \<in> set (files s)"
       "snd e = get_prompts_and_translation f (fst ld) (include_empty_translation s)"
    by blast
  show "snd e \<noteq> []" by (rule f(1))
  from qualifying_prompt[of f "fst ld" "include_empty_translation s"] f
  show "\<exists>f. (fst e, f) \<in> set (files s) \<and>
             snd e = get_prompts_and_translation f (fst ld) (include_empty_translation s) \<and>
             (\<exists>p\<in>set f. get_translation p (fst ld) \<noteq> [] \<or> include_empty_translation s)"
    by auto
qed


theorem written_entries_qualify_witness:
  "write_plugin_translations
     (do_translate prov_ok (example_state\<lparr>deepl_api_key := None\<rparr>)) =
     [(''en-US'', [(''plugins/x/a.php'', [(''Bye'', ''Goodbye'')])])] \<and>
   language_result (do_translate prov_ok (example_state\<lparr>deepl_api_key := None\<rparr>)) ''es-ES'' = []"
proof -
  have w: "write_plugin_translations
     (do_translate prov_ok (example_state\<lparr>deepl_api_key := None\<rparr>)) =
     [(''en-US'', [(''plugins/x/a.php'', [(''Bye'', ''Goodbye'')])])] \<and>
   language_result (do_translate prov_ok (example_state\<lparr>deepl_api_key := None\<rparr>)) ''es-ES'' = []"
    by (simp add: write_plugin_translations_def language_result_def
      get_prompts_and_translation_def get_translation_def
      do_translate_def example_state_def hello_def bye_def do_translate_prompt_def
      deepl_translator_def contains_def get_translations_def set_translations_def
      set_translation_def Let_def)
  from written_entries_qualify[of "do_translate prov_ok (example_state\<lparr>deepl_api_key := None\<rparr>)"]
    w show ?thesis by simp
qed

lemma descriptions_frame:
  "translate_descriptions prov ls source_desc ds s = (ds', s') \<Longrightarrow>
     source_language s' = source_language s \<and> target_languages s' = target_languages s \<and>
     files s' = files s \<and> info_json_content s' = info_json_content s \<and>
     existing_translations s' = existing_translations s \<and>
     include_empty_translation s' = include_empty_translation s \<and>
     generate_source_language_translations s' = generate_source_language_translations s"
proof (induction ls arbitrary: ds s)
  case Nil
  then show ?case by simp
next
  case (Cons l ls)
  show ?case
  proof (cases "map_of ds l \<noteq> None \<and> map_of ds l \<noteq> Some []")
    case True
    with Cons.prems have "translate_descriptions prov ls source_desc ds s = (ds', s')" by simp
    from Cons.IH[OF this] show ?thesis .
  next
    case False
    obtain tr s1 where t: "transalte_with_deepl prov s source_desc l = (tr, s1)"
      by (cases "transalte_with_deepl prov s source_desc l")
    with False Cons.prems
    have "translate_descriptions prov ls source_desc (AList.update l tr ds) s1 = (ds', s')"
      by auto
    from Cons.IH[OF this] transalte_frame[OF t] show ?thesis by simp
  qed
qed

lemma info_json_frame:
  "source_language (translate_info_json prov s) = source_language s \<and>
   target_languages (translate_info_json prov s) = target_languages s \<and>
   files (translate_info_json prov s) = files s \<and>
   existing_translations (translate_info_json prov s) = existing_translations s \<and>
   include_empty_translation (translate_info_json prov s) = include_empty_translation s \<and>
   generate_source_language_translations (translate_info_json prov s) =
     generate_source_language_translations s \<and>
   (info_json_content (translate_info_json prov s) = None) = (info_json_content s = None)"
proof -
  have "\<And>ds' s2 src ds. translate_descriptions prov (target_languages s) src ds
         (deepl_translator s) = (ds', s2) \<Longrightarrow>
     source_language s2 = source_language s \<and> target_languages s2 = target_languages s \<and>
     files s2 = files s \<and> existing_translations s2 = existing_translations s \<and>
     include_empty_translation s2 = include_empty_translation s \<and>
     generate_source_language_translations s2 = generate_source_language_translations s"
    using descriptions_frame by (fastforce simp: property_frame)
  then show ?thesis
    by (auto simp: translate_info_json_def Let_def property_frame
        split: option.splits prod.splits)
qed


lemma do_translate_frame:
  "source_language (do_translate prov s) = source_language s \<and>
   target_languages (do_translate prov s) = target_languages s \<and>
   info_json_content (do_translate prov s) = info_json_content s \<and>
   include_empty_translation (do_translate prov s) = include_empty_translation s \<and>
   generate_source_language_translations (do_translate prov s) =
     generate_source_language_translations s"
proof -
  obtain fs' s1 where r: "do_translate_files prov (files s) s = (fs', s1)"
    and d: "do_translate prov s = s1\<lparr>files := fs'\<rparr>"
    by (rule do_translate_unfold)
  from files_frame[OF r] d show ?thesis by simp
qed



lemma load_frame:
  assumes "load d s = Inr s3"
  shows "source_language s3 = source_language s \<and> target_languages s3 = target_languages s \<and>
     info_json_content s3 = info_json_content s \<and> deepl_api_key s3 = deepl_api_key s \<and>
     deepl_translator_field s3 = deepl_translator_field s \<and>
     api_call_counter s3 = api_call_counter s \<and> calls s3 = calls s \<and>
     include_empty_translation s3 = include_empty_translation s \<and>
     generate_source_language_translations s3 = generate_source_language_translations s"
  using assms
  by (auto simp: load_def find_prompts_in_all_files_def get_plugin_translations_def
      get_core_translations_def split: sum.splits option.splits if_splits)

lemma loaded_frame:
  "source_language (loaded d s) = source_language s"
  "target_languages (loaded d s) = target_languages s"
  "info_json_content (loaded d s) = info_json_content s"
  "deepl_api_key (loaded d s) = deepl_api_key s"
  "deepl_translator_field (loaded d s) = deepl_translator_field s"
  "api_call_counter (loaded d s) = api_call_counter s"
  "calls (loaded d s) = calls s"
  "include_empty_translation (loaded d s) = include_empty_translation s"
  "generate_source_language_translations (loaded d s) = generate_source_language_translations s"
  using load_frame[of d s] by (auto simp: loaded_def split: sum.splits)


lemma start_unfold:
  "start prov d s =
     (case load d s of
        Inl e \<Rightarrow> Inl e
      | Inr s3 \<Rightarrow>
          Inr (fst (write_info_json (translate_info_json prov (do_translate prov (loaded d s)))),
               write_plugin_translations
                 (translate_info_json prov (do_translate prov (loaded d s))),
               snd (write_info_json (translate_info_json prov (do_translate prov (loaded d s))))))"
  by (auto simp: start_def load_def loaded_def Let_def split: sum.splits prod.splits)


lemma example_load:
  "load example_disk fresh_state =
     Inr (fresh_state
           \<lparr>files := [(''plugins/x/a.php'', [hello, bye]), (''plugins/x/b.php'', [hello])],
            existing_translations :=
              [''Bye'' \<mapsto> [''en-US'' \<mapsto> ''Goodbye''], ''Yes'' \<mapsto> [''en-US'' \<mapsto> ''Yes'']]\<rparr>)"
  by (simp add: load_def find_prompts_in_all_files_def get_plugin_translations_def
      get_core_translations_def fresh_state_def example_disk_def add_translation_def
      get_translations_def)

text \<open>C6. When \<^verbatim>\<open>start\<close> returns, with or without provider, the descriptor written has as
  language field the sorted list without duplicates of the source language and the target
  languages, whatever the field held before.\<close>

theorem language_field_overwritten:
  assumes "info_json_content s = Some c" and "start prov d s = Inr (s', written, info)"
  shows "\<exists>c'. info = Some c' \<and> info_json_content s' = Some c' \<and>
     info_language c' =
       sorted_list_of_set (insert (source_language s) (set (target_languages s))) \<and>
     sorted (info_language c') \<and> distinct (info_language c') \<and>
     set (info_language c') = insert (source_language s) (set (target_languages s))"
proof -
  let ?s5 = "translate_info_json prov (do_translate prov (loaded d s))"
  from assms(2) have e: "s' = fst (write_info_json ?s5)" "info = snd (write_info_json ?s5)"
    by (auto simp: start_unfold split: sum.splits)
  from assms(1) info_json_frame[of prov "do_translate prov (loaded d s)"]
    do_translate_frame[of prov "loaded d s"]
  obtain c5 where c5: "info_json_content ?s5 = Some c5"
    by (auto simp: loaded_frame)
  have l: "source_language ?s5 = source_language s" "target_languages ?s5 = target_languages s"
    using info_json_frame[of prov "do_translate prov (loaded d s)"]
      do_translate_frame[of prov "loaded d s"] by (simp_all add: loaded_frame)
  let ?c' = "c5\<lparr>info_language := sort (remdups ([source_language s] @ target_languages s))\<rparr>"
  from c5 l e have "info = Some ?c'" "info_json_content s' = Some ?c'"
    by (simp_all add: write_info_json_def Let_def)
  moreover have "info_language ?c' =
       sorted_list_of_set (insert (source_language s) (set (target_languages s)))"
  proof -
    have "sort (remdups ([source_language s] @ target_languages s)) =
       sorted_list_of_set (set ([source_language s] @ target_languages s))"
      by (rule sorted_list_of_set_sort_remdups[symmetric])
    also have "set ([source_language s] @ target_languages s) =
       insert (source_language s) (set (target_languages s))" by simp
    finally show ?thesis by simp
  qed
  moreover have "sorted (info_language ?c')" "distinct (info_language ?c')"
    "set (info_language ?c') = insert (source_language s) (set (target_languages s))"
    by auto
  ultimately show ?thesis by blast
qed


lemma example_start:
  "start prov_ok example_disk fresh_state =
     Inr (fst (projr (start prov_ok example_disk fresh_state)),
          fst (snd (projr (start prov_ok example_disk fresh_state))),
          snd (snd (projr (start prov_ok example_disk fresh_state))))"
  by (simp add: start_unfold example_load)

theorem language_field_overwritten_witness:
  "info_json_content fresh_state =
     Some \<lparr>info_id = ''x'', info_language = [''fr-FR'', ''de-DE''], info_description = None\<rparr> \<and>
   \<not> isl (start prov_ok example_disk fresh_state) \<and>
   map_option info_language (snd (snd (projr (start prov_ok example_disk fresh_state)))) =
     Some [''en-US'', ''es-ES'', ''fr-FR'']"
proof -
  have a: "info_json_content fresh_state =
     Some \<lparr>info_id = ''x'', info_language = [''fr-FR'', ''de-DE''], info_description = None\<rparr>"
    by (simp add: fresh_state_def)
  have b: "\<not> isl (start prov_ok example_disk fresh_state)"
    by (simp add: start_unfold example_load)
  have c: "sorted_list_of_set (insert (source_language fresh_state)
       (set (target_languages fresh_state))) = [''en-US'', ''es-ES'', ''fr-FR'']"
    unfolding sorted_list_of_set_sort_remdups[of "source_language fresh_state # target_languages fresh_state", simplified]
    by (simp add: fresh_state_def less_eq_char_def less_char_def)
  from language_field_overwritten[OF a example_start] a b c show ?thesis by auto
qed






section \<open>Configuration inputs\<close>

lemma boolean_rejected:
  "get_input environ name \<notin> Some ` {''true'', ''True'', ''TRUE'', ''false'', ''False'', ''FALSE''}
   \<Longrightarrow> get_boolean_input environ name = Inl (ValueError name)"
  by (auto simp: get_boolean_input_def Let_def)

text \<open>C9 (amended). Of the boolean inputs, \<^verbatim>\<open>__get_inputs\<close> reads the flags for empty
  translations, for source-language files and for debugging always, and the flag for core
  translations only when the source language is \<^verbatim>\<open>FR_FR\<close>. When the value of an input it
  reads, stripped of surrounding whitespace, is not one of the six spellings (an unset or
  blank input included), \<^verbatim>\<open>__get_inputs\<close> raises \<^verbatim>\<open>ValueError\<close>, and so does construction,
  which has done nothing else by then.\<close>

theorem invalid_boolean_is_fatal:
  assumes "name \<in> {INPUT_INCLUDE_EMPTY_TRANSLATION c,
                   INPUT_GENERATE_SOURCE_LANGUAGE_TRANSLATIONS c, INPUT_DEBUG c} \<or>
           (name = INPUT_USE_CORE_TRANSLATIONS c \<and>
            get_input environ (INPUT_SOURCE_LANGUAGE c) = Some (FR_FR c))"
    and "get_input environ name \<notin>
           Some ` {''true'', ''True'', ''TRUE'', ''false'', ''False'', ''FALSE''}"
  shows "\<exists>n. get_inputs c environ s = Inl (ValueError n) \<and>
             init c environ info_file now = Inl (ValueError n)"
proof -
  have v: "\<And>name' x. get_input_in_list environ name' x = Inl e \<Longrightarrow> \<exists>n. e = ValueError n" for e
    by (auto simp: get_input_in_list_def split: option.splits if_splits)
  have g: "\<exists>n. \<forall>s. get_inputs c environ s = Inl (ValueError n)"
  proof (cases "get_input_in_list environ (INPUT_SOURCE_LANGUAGE c) (ALL_LANGUAGES c)")
    case (Inl e)
    then show ?thesis
      by (auto simp: get_inputs_def get_input_in_list_def split: option.splits if_splits)
  next
    case src: (Inr src)
    then have s: "get_input environ (INPUT_SOURCE_LANGUAGE c) = Some src"
      by (auto simp: get_input_in_list_def split: option.splits if_splits)
    show ?thesis
    proof (cases "get_list_input environ (INPUT_TARGET_LANGUAGES c) (ALL_LANGUAGES c)")
      case (Inl e)
      with src show ?thesis
        by (auto simp: get_inputs_def get_list_input_def Let_def split: option.splits if_splits)
    next
      case tgts: (Inr tgts)
      show ?thesis
      proof (cases "get_boolean_input environ (INPUT_INCLUDE_EMPTY_TRANSLATION c)")
        case (Inl e)
        with src tgts show ?thesis
          by (auto simp: get_inputs_def get_boolean_input_def Let_def split: if_splits)
      next
        case inc: (Inr inc)
        show ?thesis
        proof (cases "if src \<noteq> FR_FR c then Inr False
            else get_boolean_input environ (INPUT_USE_CORE_TRANSLATIONS c)")
          case (Inl e)
          with src tgts inc show ?thesis
            by (auto simp: get_inputs_def get_boolean_input_def Let_def split: if_splits)
        next
          case core: (Inr core)
          show ?thesis
          proof (cases "get_boolean_input environ (INPUT_GENERATE_SOURCE_LANGUAGE_TRANSLATIONS c)")
            case (Inl e)
            with src tgts inc core show ?thesis
              by (auto simp: get_inputs_def get_boolean_input_def Let_def split: if_splits)
          next
            case gen: (Inr gen)
            show ?thesis
            proof (cases "get_boolean_input environ (INPUT_DEBUG c)")
              case (Inl e)
              with src tgts inc core gen show ?thesis
                by (auto simp: get_inputs_def get_boolean_input_def Let_def split: if_splits)
            next
              case dbg: (Inr dbg)
              from assms(1) have False
              proof (elim disjE conjE)
                assume "name \<in> {INPUT_INCLUDE_EMPTY_TRANSLATION c,
                   INPUT_GENERATE_SOURCE_LANGUAGE_TRANSLATIONS c, INPUT_DEBUG c}"
                with boolean_rejected[OF assms(2)] inc gen dbg show False by auto
              next
                assume "name = INPUT_USE_CORE_TRANSLATIONS c"
                  "get_input environ (INPUT_SOURCE_LANGUAGE c) = Some (FR_FR c)"
                with boolean_rejected[OF assms(2)] core s show False by auto
              qed
              then show ?thesis ..
            qed
          qed
        qed
      qed
    qed
  qed
  then obtain n where n: "\<And>s. get_inputs c environ s = Inl (ValueError n)" by blast
  then show ?thesis by (auto simp: init_def)
qed

theorem invalid_boolean_is_fatal_witness:
  "debug_yes_environ (INPUT_DEBUG example_constants) = Some ''yes'' \<and>
   get_input debug_yes_environ (INPUT_DEBUG example_constants) = Some ''yes'' \<and>
   ''yes'' \<notin> {''true'', ''True'', ''TRUE'', ''false'', ''False'', ''FALSE''} \<and>
   init example_constants debug_yes_environ (Some example_info) 0 =
     Inl (ValueError ''INPUT_DEBUG'')"
proof -
  let ?e = "debug_yes_environ"
  have a: "INPUT_DEBUG example_constants \<in> {INPUT_INCLUDE_EMPTY_TRANSLATION example_constants,
       INPUT_GENERATE_SOURCE_LANGUAGE_TRANSLATIONS example_constants,
       INPUT_DEBUG example_constants} \<or>
     (INPUT_DEBUG example_constants = INPUT_USE_CORE_TRANSLATIONS example_constants \<and>
      get_input ?e (INPUT_SOURCE_LANGUAGE example_constants) = Some (FR_FR example_constants))"
    by simp
  have e: "debug_yes_environ (INPUT_DEBUG example_constants) = Some ''yes''"
    by (simp add: debug_yes_environ_def example_constants_def)
  have g: "get_input ?e (INPUT_DEBUG example_constants) = Some ''yes''"
    by (simp add: get_input_def e strip_def isspace_def Let_def)
  have b: "get_input ?e (INPUT_DEBUG example_constants) \<notin>
     Some ` {''true'', ''True'', ''TRUE'', ''false'', ''False'', ''FALSE''}"
    unfolding g by simp
  have c: "init example_constants ?e (Some example_info) 0 = Inl (ValueError ''INPUT_DEBUG'')"
    by (simp add: init_def get_inputs_def get_input_in_list_def get_list_input_def
      get_boolean_input_def get_input_def strip_def isspace_def read_info_json_def
      example_constants_def example_environ_def debug_yes_environ_def example_info_def Let_def)
  from invalid_boolean_is_fatal[OF a b, of undefined "Some example_info" 0] e g c
  show ?thesis by simp
qed

theorem invalid_boolean_is_fatal_counterexample:
  "banana_environ (INPUT_USE_CORE_TRANSLATIONS example_constants) = Some ''banana'' \<and>
   ''banana'' \<notin> {''true'', ''True'', ''TRUE'', ''false'', ''False'', ''FALSE''} \<and>
   \<not> isl (init example_constants banana_environ (Some example_info) 0) \<and>
   example_environ (INPUT_USE_CORE_TRANSLATIONS example_constants) = Some '' true'' \<and>
   '' true'' \<notin> {''true'', ''True'', ''TRUE'', ''false'', ''False'', ''FALSE''} \<and>
   \<not> isl (init example_constants example_environ (Some example_info) 0)"
  by (simp add: init_def get_inputs_def get_input_in_list_def get_list_input_def
      get_boolean_input_def get_input_def strip_def isspace_def read_info_json_def
      example_constants_def example_environ_def banana_environ_def example_info_def Let_def)

section \<open>Pacing\<close>

lemma wrapper_entered:
  assumes "0 \<le> overshoot" and "wrapper th now overshoot = (th', entered)"
  shows "entered \<ge> time_of_last_call th + throttle_period th \<and>
         time_of_last_call th' = entered \<and> throttle_period th' = throttle_period th"
  using assms by (auto simp: wrapper_def Let_def split: if_splits)

lemma paced_Cons:
  "paced period (a # ts) = ((\<forall>b\<in>set (take 1 ts). b - a \<ge> period) \<and> paced period ts)"
  by (cases ts) auto

lemma wrapped_calls_paced:
  "\<forall>x\<in>set xs. 0 \<le> snd x \<Longrightarrow>
     paced (throttle_period th) (wrapped_calls th xs) \<and>
     (\<forall>t\<in>set (take 1 (wrapped_calls th xs)).
        t \<ge> time_of_last_call th + throttle_period th)"
proof (induction xs arbitrary: th)
  case Nil
  show ?case by simp
next
  case (Cons x xs)
  obtain now ov where x: "x = (now, ov)" by (cases x)
  obtain th' entered where w: "wrapper th now ov = (th', entered)"
    by (cases "wrapper th now ov")
  from Cons.prems x have ov: "0 \<le> ov" by simp
  note e = wrapper_entered[OF ov w]
  from Cons.prems have "\<forall>x\<in>set xs. 0 \<le> snd x" by simp
  from Cons.IH[OF this, of th'] e
  have "paced (throttle_period th) (wrapped_calls th' xs)"
    "\<forall>t\<in>set (take 1 (wrapped_calls th' xs)). t - entered \<ge> throttle_period th"
    by auto
  with e x w show ?case by (simp add: paced_Cons)
qed

text \<open>C2 (amended). The entries into a function wrapped by the rate limiter are at least
  the configured period apart, provided no sleep returns early. The remote translation call
  of the translator is not wrapped by the limiter: it starts at the moment it is invoked.\<close>

theorem throttle_paces_wrapped_calls:
  assumes "\<forall>x\<in>set xs. 0 \<le> snd x"
  shows "paced (throttle_period th) (wrapped_calls th xs) \<and>
    (deepl_translator_field s \<noteq> None \<longrightarrow>
       map call_at (drop (length (calls s)) (calls (snd (transalte_with_deepl prov s t l)))) =
         [clock s])"
  using wrapped_calls_paced[OF assms, of th]
  by (simp add: transalte_with_deepl_def Let_def)

theorem throttle_paces_wrapped_calls_witness:
  "list_all (\<lambda>x. 0 \<le> snd x) example_arrivals \<and>
   wrapped_calls (Throttle_init (1 / 10)) example_arrivals = [101 / 1000, 201 / 1000, 1] \<and>
   paced (1 / 10) (wrapped_calls (Throttle_init (1 / 10)) example_arrivals)"
proof -
  have a: "\<forall>x\<in>set example_arrivals. 0 \<le> snd x" by (simp add: example_arrivals_def)
  then have a': "list_all (\<lambda>x. 0 \<le> snd x) example_arrivals" by (simp add: list_all_iff)
  have b: "wrapped_calls (Throttle_init (1 / 10)) example_arrivals =
     [101 / 1000, 201 / 1000, 1]"
    by (simp add: example_arrivals_def Throttle_init_def wrapper_def Let_def)
  have c: "throttle_period (Throttle_init (1 / 10)) = 1 / 10" by (simp add: Throttle_init_def)
  from throttle_paces_wrapped_calls[OF a, of "Throttle_init (1 / 10)"] a' b c
  show ?thesis by simp
qed

theorem remote_calls_paced_counterexample:
  "map call_at (calls (do_translate prov_ok example_state)) = [0, 1 / 100, 1 / 50] \<and>
   \<not> paced (throttle_period (Throttle_init (1 / 10)))
       (map call_at (calls (do_translate prov_ok example_state)))"
  by (simp add: example_calls Throttle_init_def)

end
